theory Spec2Isabelle
  imports Complex_Main "HOL-Library.Word"
begin

unbundle bit_operations_syntax

section \<open>Number model\<close>

text \<open>
  The simulator is written in JavaScript; every quantity is a \<open>number\<close>, a binary64
  floating-point value. The embedding reads a \<open>number\<close> as a real; the values NaN and
  \<open>\<plusminus>Infinity\<close> do not exist. Where the source can leave the reals, the model says so
  with a value of type \<open>anomaly\<close> instead of a number:
  \<^item> \<open>NotANumber\<close>: the source returns \<open>Number.NaN\<close> itself (\<open>mean\<close> of an empty array);
  \<^item> \<open>DivisionByZero\<close>: a quotient whose divisor is zero (JavaScript yields an
    infinity or NaN there and goes on);
  \<^item> \<open>UndefinedValue\<close>: an array read past the end (JavaScript yields \<open>undefined\<close>).
  A computation that meets an anomaly is not followed further: its result is the anomaly.

  regression.js computes with \<open>+\<close>, \<open>-\<close>, \<open>*\<close> and \<open>/\<close> only, whose binary64 results
  are fixed by the standard: the exact result, rounded. Its functions therefore take
  the rounding \<open>rnd\<close> as a parameter and apply it after every operation: \<open>exact\<close> gives
  the arithmetic of the reals, \<open>binary64\<close> the one of the program. Everywhere else (in
  signals.js and physics.js, which call \<open>sin\<close>, \<open>exp\<close>, \<open>log\<close> and \<open>sqrt\<close>, and in the
  application code) the arithmetic is the exact one.
\<close>

datatype anomaly = NotANumber | DivisionByZero | UndefinedValue

text \<open>No rounding: the arithmetic of the reals.\<close>

definition exact :: "real \<Rightarrow> real" where
  [simp]: "exact v = v"

text \<open>The integer nearest to \<open>x\<close>; of the two nearest ones, the even one.\<close>

definition round_half_even :: "real \<Rightarrow> int" where
  "round_half_even x =
     (if x - of_int \<lfloor>x\<rfloor> < 1 / 2 then \<lfloor>x\<rfloor>
      else if x - of_int \<lfloor>x\<rfloor> > 1 / 2 then \<lfloor>x\<rfloor> + 1
      else if even \<lfloor>x\<rfloor> then \<lfloor>x\<rfloor> else \<lfloor>x\<rfloor> + 1)"

text \<open>
  Rounding to binary64, to the nearest value and to the even significand on a tie: a
  value has 53 significant bits, so between \<open>2^e\<close> and \<open>2^(e+1)\<close> the values are the
  multiples of \<open>2^(e-52)\<close>; below \<open>2^-1022\<close> the spacing stays \<open>2^-1074\<close>. The overflow
  to an infinity, from \<open>2^1024\<close> on, is not represented.
\<close>

definition binary64 :: "real \<Rightarrow> real" where
  "binary64 x =
     (if x = 0 then 0
      else (let e = max \<lfloor>log 2 \<bar>x\<bar>\<rfloor> (- 1022);
                ulp = 2 powi (e - 52)
            in of_int (round_half_even (x / ulp)) * ulp))"

definition divide_js :: "(real \<Rightarrow> real) \<Rightarrow> real \<Rightarrow> real \<Rightarrow> anomaly + real" where
  "divide_js rnd a b = (if b = 0 then Inl DivisionByZero else Inr (rnd (a / b)))"

section \<open>regression.js\<close>

record FitResult =
  slope :: real
  intercept :: real
  r2 :: real
  count :: nat

text \<open>
  \<open>mean(values)\<close>: NaN on an empty array, else the left-to-right sum over the length.
  The length of an array is below \<open>2^32\<close>: as a number it is exact.
\<close>

definition mean :: "(real \<Rightarrow> real) \<Rightarrow> real list \<Rightarrow> anomaly + real" where
  "mean rnd vals =
     (if length vals = 0 then Inl NotANumber
      else divide_js rnd (foldl (\<lambda>sum value. rnd (sum + value)) 0 vals) (real (length vals)))"

text \<open>The object \<open>{times, values}\<close> that \<open>sliceWindow\<close> returns.\<close>

record Window =
  times_w :: "real list"
  values_w :: "real list"

text \<open>
  The loop of \<open>sliceWindow\<close>, from \<open>index\<close> on, with the two arrays built so far.
  \<open>values[index]\<close> past the end of \<open>values\<close> is \<open>undefined\<close>.
\<close>

function sliceWindow_loop ::
  "real list \<Rightarrow> real list \<Rightarrow> real \<Rightarrow> real \<Rightarrow> nat \<Rightarrow> real list \<Rightarrow> real list \<Rightarrow> anomaly + Window"
where
  "sliceWindow_loop ts vs start stop index selectedTimes selectedValues =
     (if index < length ts then
        (let time = ts ! index in
         if time \<ge> start \<and> time \<le> stop then
           (if index < length vs then
              sliceWindow_loop ts vs start stop (index + 1)
                (selectedTimes @ [time]) (selectedValues @ [vs ! index])
            else Inl UndefinedValue)
         else sliceWindow_loop ts vs start stop (index + 1) selectedTimes selectedValues)
      else Inr \<lparr>times_w = selectedTimes, values_w = selectedValues\<rparr>)"
  by pat_completeness auto
termination
  by (relation "measure (\<lambda>(ts, vs, start, stop, index, st, sv). length ts - index)") auto

declare sliceWindow_loop.simps [simp del]

definition sliceWindow :: "real list \<Rightarrow> real list \<Rightarrow> real \<Rightarrow> real \<Rightarrow> anomaly + Window" where
  "sliceWindow ts vs startS endS =
     (let start = min startS endS;
          stop = max startS endS
      in sliceWindow_loop ts vs start stop 0 [] [])"

definition meanInWindow ::
  "(real \<Rightarrow> real) \<Rightarrow> real list \<Rightarrow> real list \<Rightarrow> real \<Rightarrow> real \<Rightarrow> anomaly + real" where
  "meanInWindow rnd ts vs startS endS =
     (case sliceWindow ts vs startS endS of
        Inl e \<Rightarrow> Inl e
      | Inr selected \<Rightarrow> mean rnd (values_w selected))"

text \<open>
  The first loop of \<open>linearRegression\<close>: the sums \<open>(ssxx, ssxy, sst)\<close> after the
  indices in the list have been visited in order.
\<close>

definition sums_step ::
  "(real \<Rightarrow> real) \<Rightarrow> real list \<Rightarrow> real list \<Rightarrow> real \<Rightarrow> real \<Rightarrow>
     real \<times> real \<times> real \<Rightarrow> nat \<Rightarrow> real \<times> real \<times> real" where
  "sums_step rnd x y xMean yMean acc index =
     (case acc of (ssxx, ssxy, sst) \<Rightarrow>
        (let dx = rnd (x ! index - xMean);
             dy = rnd (y ! index - yMean)
         in (rnd (ssxx + rnd (dx * dx)), rnd (ssxy + rnd (dx * dy)), rnd (sst + rnd (dy * dy)))))"

definition sums_loop ::
  "(real \<Rightarrow> real) \<Rightarrow> real list \<Rightarrow> real list \<Rightarrow> real \<Rightarrow> real \<Rightarrow> real \<times> real \<times> real" where
  "sums_loop rnd x y xMean yMean =
     foldl (sums_step rnd x y xMean yMean) (0, 0, 0) [0..<length x]"

text \<open>
  The second loop: the sum of the squared residuals. The square \<open>** 2\<close> is rounded as a
  product is.
\<close>

definition residual_step ::
  "(real \<Rightarrow> real) \<Rightarrow> real list \<Rightarrow> real list \<Rightarrow> real \<Rightarrow> real \<Rightarrow> real \<Rightarrow> nat \<Rightarrow> real" where
  "residual_step rnd x y slope' intercept' residual index =
     (let predicted = rnd (rnd (slope' * x ! index) + intercept')
      in rnd (residual + rnd ((rnd (y ! index - predicted)) ^ 2)))"

definition residual_loop ::
  "(real \<Rightarrow> real) \<Rightarrow> real list \<Rightarrow> real list \<Rightarrow> real \<Rightarrow> real \<Rightarrow> real" where
  "residual_loop rnd x y slope' intercept' =
     foldl (residual_step rnd x y slope' intercept') 0 [0..<length x]"

text \<open>
  \<open>linearRegression(x, y)\<close>; \<open>None\<close> is \<open>null\<close>. The local constants \<open>slope\<close>,
  \<open>intercept\<close> and \<open>r2\<close> carry a prime, the plain names being the fields of the result.
\<close>

definition linearRegression ::
  "(real \<Rightarrow> real) \<Rightarrow> real list \<Rightarrow> real list \<Rightarrow> anomaly + FitResult option" where
  "linearRegression rnd x y =
     (if length x \<noteq> length y \<or> length x < 2 then Inr None
      else
        (case mean rnd x of Inl e \<Rightarrow> Inl e | Inr xMean \<Rightarrow>
        (case mean rnd y of Inl e \<Rightarrow> Inl e | Inr yMean \<Rightarrow>
        (case sums_loop rnd x y xMean yMean of (ssxx, ssxy, sst) \<Rightarrow>
          if ssxx = 0 then Inr None
          else
            (case divide_js rnd ssxy ssxx of Inl e \<Rightarrow> Inl e | Inr slope' \<Rightarrow>
              (let intercept' = rnd (yMean - rnd (slope' * xMean));
                   residual = residual_loop rnd x y slope' intercept'
               in (case (if sst = 0 then Inr 1
                         else (case divide_js rnd residual sst of
                                 Inl e \<Rightarrow> Inl e
                               | Inr q \<Rightarrow> Inr (rnd (1 - q)))) of
                     Inl e \<Rightarrow> Inl e
                   | Inr r2' \<Rightarrow>
                       Inr (Some \<lparr>slope = slope', intercept = intercept', r2 = r2',
                                  count = length x\<rparr>))))))))"

definition linearRegressionInWindow ::
  "(real \<Rightarrow> real) \<Rightarrow> real list \<Rightarrow> real list \<Rightarrow> real \<Rightarrow> real \<Rightarrow> anomaly + FitResult option"
where
  "linearRegressionInWindow rnd ts vs startS endS =
     (case sliceWindow ts vs startS endS of
        Inl e \<Rightarrow> Inl e
      | Inr selected \<Rightarrow> linearRegression rnd (times_w selected) (values_w selected))"

section \<open>presets.js and physics.js\<close>

text \<open>
  A field name that several of the source's objects share carries the object's name as a
  prefix here (\<open>preset_cartMassKg\<close>, \<open>config_cartMassKg\<close>), record fields being
  global names.
\<close>

datatype ScenarioId = cart_only | cart_plus_pad

record ScenarioFrictionConfig =
  friction_dragN :: real
  friction_startThresholdN :: real

record TeacherPreset =
  preset_id :: string
  preset_label :: string
  noiseDefault :: bool
  preset_cartMassKg :: real
  preset_padMassKg :: real
  preset_scenario :: "ScenarioId \<rightharpoonup> ScenarioFrictionConfig"

definition PRESETS :: "TeacherPreset list" where
  "PRESETS =
     [\<lparr>preset_id = ''low'', preset_label = ''Low Friction'', noiseDefault = False,
       preset_cartMassKg = 0.5, preset_padMassKg = 0.2,
       preset_scenario =
         [cart_only \<mapsto> \<lparr>friction_dragN = 0.06, friction_startThresholdN = 0.04\<rparr>,
          cart_plus_pad \<mapsto> \<lparr>friction_dragN = 1.05, friction_startThresholdN = 0.95\<rparr>]\<rparr>,
      \<lparr>preset_id = ''medium'', preset_label = ''Medium Friction'', noiseDefault = False,
       preset_cartMassKg = 0.5, preset_padMassKg = 0.22,
       preset_scenario =
         [cart_only \<mapsto> \<lparr>friction_dragN = 0.09, friction_startThresholdN = 0.06\<rparr>,
          cart_plus_pad \<mapsto> \<lparr>friction_dragN = 1.35, friction_startThresholdN = 1.15\<rparr>]\<rparr>,
      \<lparr>preset_id = ''high'', preset_label = ''High Friction'', noiseDefault = True,
       preset_cartMassKg = 0.5, preset_padMassKg = 0.24,
       preset_scenario =
         [cart_only \<mapsto> \<lparr>friction_dragN = 0.12, friction_startThresholdN = 0.08\<rparr>,
          cart_plus_pad \<mapsto> \<lparr>friction_dragN = 1.7, friction_startThresholdN = 1.35\<rparr>]\<rparr>]"

datatype error = UnknownPreset string | UnsupportedScenario ScenarioId

definition getPresetById :: "string \<Rightarrow> error + TeacherPreset" where
  "getPresetById presetId =
     (case find (\<lambda>item. preset_id item = presetId) PRESETS of
        None \<Rightarrow> Inl (UnknownPreset presetId)
      | Some preset \<Rightarrow> Inr preset)"

definition scenarioTitle :: "ScenarioId \<Rightarrow> string" where
  "scenarioTitle sc = (if sc = cart_plus_pad then ''Cart + Friction Pad'' else ''Cart Only'')"

definition G :: real where
  "G = 9.81"

definition TRACK_LENGTH_M :: real where
  "TRACK_LENGTH_M = 1.2"

record ScenarioConfig =
  config_scenario :: ScenarioId
  scenarioLabel :: string
  config_presetId :: string
  presetLabel :: string
  config_cartMassKg :: real
  config_padMassKg :: real
  systemMassKg :: real
  dragN :: real
  startThresholdN :: real

record TrialInput =
  scenario :: ScenarioId
  presetId :: string
  hangingMassKg :: real

record TrialPhysics =
  config :: ScenarioConfig
  physics_hangingMassKg :: real
  pullingForceN :: real
  netForceN :: real
  accelerationMps2 :: real
  tensionN :: real
  moved :: bool
  travelTimeS :: "real option"

definition getScenarioConfig :: "TrialInput \<Rightarrow> error + ScenarioConfig" where
  "getScenarioConfig input =
     (case getPresetById (presetId input) of
        Inl e \<Rightarrow> Inl e
      | Inr preset \<Rightarrow>
          (case preset_scenario preset (scenario input) of
             None \<Rightarrow> Inl (UnsupportedScenario (scenario input))
           | Some scenarioFriction \<Rightarrow>
               (let systemMass =
                      (if scenario input = cart_plus_pad
                       then preset_cartMassKg preset + preset_padMassKg preset
                       else preset_cartMassKg preset)
                in Inr \<lparr>config_scenario = scenario input,
                        scenarioLabel = scenarioTitle (scenario input),
                        config_presetId = preset_id preset,
                        presetLabel = preset_label preset,
                        config_cartMassKg = preset_cartMassKg preset,
                        config_padMassKg = preset_padMassKg preset,
                        systemMassKg = systemMass,
                        dragN = friction_dragN scenarioFriction,
                        startThresholdN = friction_startThresholdN scenarioFriction\<rparr>)))"

text \<open>
  The outcome of a call that can throw: the exception, an anomaly of the arithmetic, or
  the value returned.
\<close>

datatype 'a outcome = Threw error | Anomalous anomaly | Returned 'a

text \<open>
  \<open>computeTrialPhysics(input)\<close>. The two quotients are \<open>divide_js\<close>: a division by zero
  would put an infinity or NaN into the result, which the model reports as an anomaly.
  The local constants \<open>pullingForceN\<close>, \<open>netForceN\<close>, \<open>accelerationMps2\<close>, \<open>tensionN\<close> and
  \<open>travelTimeS\<close> are written without their unit here, and \<open>config\<close> with a prime, the
  source's names being those of the fields.
\<close>

definition computeTrialPhysics :: "TrialInput \<Rightarrow> TrialPhysics outcome" where
  "computeTrialPhysics input =
     (case getScenarioConfig input of
        Inl e \<Rightarrow> Threw e
      | Inr config' \<Rightarrow>
          (let pullingForce = hangingMassKg input * G in
           if pullingForce \<le> startThresholdN config' then
             Returned \<lparr>config = config', physics_hangingMassKg = hangingMassKg input,
                       pullingForceN = pullingForce, netForceN = 0, accelerationMps2 = 0,
                       tensionN = pullingForce, moved = False, travelTimeS = None\<rparr>
           else
             (let netForce = pullingForce - dragN config';
                  totalAcceleratedMassKg = systemMassKg config' + hangingMassKg input
              in case divide_js exact netForce totalAcceleratedMassKg of
                   Inl a \<Rightarrow> Anomalous a
                 | Inr acceleration \<Rightarrow>
                     if acceleration \<le> 0 then
                       Returned \<lparr>config = config', physics_hangingMassKg = hangingMassKg input,
                                 pullingForceN = pullingForce, netForceN = netForce,
                                 accelerationMps2 = 0, tensionN = pullingForce,
                                 moved = False, travelTimeS = None\<rparr>
                     else
                       (case divide_js exact (2 * TRACK_LENGTH_M) acceleration of
                          Inl a \<Rightarrow> Anomalous a
                        | Inr q \<Rightarrow>
                            (let tension = systemMassKg config' * acceleration + dragN config';
                                 travelTime = sqrt q
                             in Returned \<lparr>config = config',
                                           physics_hangingMassKg = hangingMassKg input,
                                           pullingForceN = pullingForce, netForceN = netForce,
                                           accelerationMps2 = acceleration, tensionN = tension,
                                           moved = True, travelTimeS = Some travelTime\<rparr>)))))"

section \<open>signals.js\<close>

record SignalPhases =
  initialStartS :: real
  accelStartS :: real
  accelEndS :: real
  stopEndS :: real

record Interval =
  startS :: real
  endS :: real

record TrialSignals =
  timesS :: "real list"
  forceN :: "real list"
  velocityMps :: "real list"
  motionWindow :: "Interval option"
  phases :: SignalPhases

text \<open>The options object; an absent \<open>durationS\<close> or \<open>sampleRateHz\<close> is \<open>None\<close>.\<close>

record SignalOptions =
  noiseEnabled :: bool
  seed :: real
  durationS :: "real option"
  sampleRateHz :: "real option"

definition clamp :: "real \<Rightarrow> real \<Rightarrow> real \<Rightarrow> real" where
  "clamp v lo hi = min hi (max lo v)"

subsection \<open>The seeded generator\<close>

text \<open>
  \<open>seed >>> 0\<close>: the seed truncated towards zero, modulo \<open>2^32\<close>.
\<close>

definition toUint32 :: "real \<Rightarrow> int" where
  "toUint32 x = (if x \<ge> 0 then \<lfloor>x\<rfloor> else \<lceil>x\<rceil>) mod 2 ^ 32"

text \<open>
  \<open>Math.imul\<close> multiplies modulo \<open>2^32\<close>; the bitwise operators read their operands
  modulo \<open>2^32\<close> as well, so \<open>t\<close> is a 32-bit word. The closure's variable \<open>state\<close>
  is a number that is incremented without reduction: it is an integer here, and
  \<open>createRng\<close> returns its initial value. One call of the closure is \<open>rng\<close>: the
  uniform draw and the new state. (The sum \<open>state + 0x6d2b79f5\<close> is exact in binary64 as
  long as it stays below \<open>2^53\<close>, that is for the first 4.9 million draws; the state is
  an integer at any time, and what is proved of \<open>rng\<close> below is proved for every state.)
\<close>

definition imul :: "32 word \<Rightarrow> 32 word \<Rightarrow> 32 word" where
  "imul a b = a * b"

definition createRng :: "real \<Rightarrow> int" where
  "createRng seed' = toUint32 seed'"

definition rng :: "int \<Rightarrow> real \<times> int" where
  "rng state =
     (let state' = state + 0x6d2b79f5;
          t0 = (word_of_int state' :: 32 word);
          t1 = imul (t0 XOR drop_bit 15 t0) (t0 OR 1);
          t2 = t1 XOR (t1 + imul (t1 XOR drop_bit 7 t1) (t1 OR 61))
      in (real (unat (t2 XOR drop_bit 14 t2)) / 4294967296, state'))"

text \<open>
  The noise sampler is a closure: the constant zero function when noise is off, else a
  function over the generator's state. A call returns the draw and the sampler after it.
\<close>

datatype sampler = Silent | Gaussian int

definition buildNoiseSampler :: "real \<Rightarrow> bool \<Rightarrow> sampler" where
  "buildNoiseSampler presetSeed noiseEnabled' =
     (if \<not> noiseEnabled' then Silent else Gaussian (createRng presetSeed))"

fun noise :: "sampler \<Rightarrow> real \<Rightarrow> real \<times> sampler" where
  "noise Silent scale = (0, Silent)"
| "noise (Gaussian state) scale =
     (case rng state of (r1, state1) \<Rightarrow>
        (let u1 = clamp r1 (1 / 10 ^ 8) (1 - 1 / 10 ^ 8) in
         case rng state1 of (u2, state2) \<Rightarrow>
           (let z = sqrt (- 2 * ln u1) * cos (2 * pi * u2)
            in (z * scale, Gaussian state2))))"

subsection \<open>The phase constants of a trial\<close>

text \<open>
  The local constants of \<open>generateTrialSignals\<close>, as functions of the physics result
  and of the duration; \<open>_of\<close> sets them apart from the fields of the result.
\<close>

definition initialStartS_of :: real where
  "initialStartS_of = 0"

definition accelStartS_of :: real where
  "accelStartS_of = 0.7"

definition accelDurationS_of :: "TrialPhysics \<Rightarrow> real" where
  "accelDurationS_of physics' =
     (if moved physics'
      then clamp ((case travelTimeS physics' of None \<Rightarrow> 1.8 | Some tt \<Rightarrow> tt) * 0.8) 1.1 2.0
      else 0)"

definition accelEndS_of :: "TrialPhysics \<Rightarrow> real \<Rightarrow> real" where
  "accelEndS_of physics' duration =
     (if moved physics'
      then clamp (accelStartS_of + accelDurationS_of physics') 1.8 (duration - 1.2)
      else accelStartS_of)"

definition rampWindowS_of :: "TrialPhysics \<Rightarrow> real" where
  "rampWindowS_of physics' =
     (if moved physics' then min 0.24 (max 0.12 (0.14 * accelDurationS_of physics')) else 0)"

definition linearStartS_of :: "TrialPhysics \<Rightarrow> real" where
  "linearStartS_of physics' = accelStartS_of + rampWindowS_of physics'"

definition linearEndS_of :: "TrialPhysics \<Rightarrow> real \<Rightarrow> real" where
  "linearEndS_of physics' duration = accelEndS_of physics' duration - rampWindowS_of physics'"

definition stopDurationS_of :: "TrialPhysics \<Rightarrow> real" where
  "stopDurationS_of physics' = (if moved physics' then 0.45 else 0)"

definition stopEndS_of :: "TrialPhysics \<Rightarrow> real \<Rightarrow> real" where
  "stopEndS_of physics' duration =
     (if moved physics'
      then clamp (accelEndS_of physics' duration + stopDurationS_of physics')
             (accelEndS_of physics' duration + 0.35) (duration - 0.35)
      else accelStartS_of + 0.35)"

definition peakVelocity_of :: "TrialPhysics \<Rightarrow> real \<Rightarrow> real" where
  "peakVelocity_of physics' duration =
     (if moved physics'
      then accelerationMps2 physics' * (accelEndS_of physics' duration - accelStartS_of)
      else 0)"

subsection \<open>One sample\<close>

text \<open>
  The body of the loop before the noise is added: \<open>(force, velocity)\<close> at time \<open>t\<close>,
  in the branch \<open>physics.moved\<close> and in the other one. The divisors \<open>accelStartS\<close>,
  \<open>rampWindowS\<close> and \<open>stopDurationS\<close> are positive constants where they are used.
\<close>

definition movedSample :: "TrialPhysics \<Rightarrow> real \<Rightarrow> real \<Rightarrow> real \<times> real" where
  "movedSample physics' duration t =
     (if t < accelStartS_of then
        (let phaseRatio = t / accelStartS_of
         in (tensionN physics' * (0.15 + 0.85 * phaseRatio) + 0.01 * sin (8 * t),
             0.004 * sin (9 * t)))
      else if t \<le> accelEndS_of physics' duration then
        (let dt = t - accelStartS_of;
             oscillation = 0.035 * exp (- 3 * dt) * sin (14 * dt);
             force = tensionN physics' + oscillation
         in if t < linearStartS_of physics' then
              (let u = clamp ((t - accelStartS_of) / rampWindowS_of physics') 0 1
               in (force, 0.5 * accelerationMps2 physics' * rampWindowS_of physics' * u * u))
            else if t \<le> linearEndS_of physics' duration then
              (let vRamp = 0.5 * accelerationMps2 physics' * rampWindowS_of physics'
               in (force, vRamp + accelerationMps2 physics' * (t - linearStartS_of physics')))
            else
              (let u = clamp ((t - linearEndS_of physics' duration) / rampWindowS_of physics') 0 1;
                   vRamp = 0.5 * accelerationMps2 physics' * rampWindowS_of physics';
                   vLinear = vRamp + accelerationMps2 physics'
                               * (linearEndS_of physics' duration - linearStartS_of physics')
               in (force,
                   vLinear + accelerationMps2 physics' * rampWindowS_of physics'
                               * (u - 0.5 * u * u))))
      else if t \<le> stopEndS_of physics' duration then
        (let dt = t - accelEndS_of physics' duration;
             ratio = clamp (dt / stopDurationS_of physics') 0 1
         in ((1 - ratio) * tensionN physics' * 0.7 + 0.03 * sin (18 * dt) * exp (- 4 * dt),
             peakVelocity_of physics' duration * exp (- 3.2 * dt)))
      else
        (let dt = t - stopEndS_of physics' duration
         in (0.01 * sin (14 * dt) * exp (- 4 * dt),
             0.002 * sin (11 * dt) * exp (- 4 * dt))))"

definition stillSample :: "TrialPhysics \<Rightarrow> real \<Rightarrow> real \<times> real" where
  "stillSample physics' t =
     (let pulse = (if sin (10 * t) > 0.82 then 1 else 0 :: real)
      in (pullingForceN physics' * (0.9 + 0.05 * sin (3.8 * t)) + pulse * 0.04,
          (if pulse \<noteq> 0 then 0.015 else 0) + 0.003 * sin (11 * t)))"

subsection \<open>The sampling loop and the result\<close>

text \<open>
  The loop from \<open>index\<close> on: the sampler and the three arrays are the state. The time
  is \<open>index / sampleRateHz\<close>; for a rate of zero JavaScript's quotient is not a real
  (the model's is 0), so the samples are meaningful for a non-zero rate only.
\<close>

function samples_loop ::
  "TrialPhysics \<Rightarrow> real \<Rightarrow> real \<Rightarrow> int \<Rightarrow> int \<Rightarrow> sampler \<Rightarrow>
     real list \<Rightarrow> real list \<Rightarrow> real list \<Rightarrow> real list \<times> real list \<times> real list"
where
  "samples_loop physics' duration rate cnt index smp ts fs vs =
     (if index < cnt then
        (let t = real_of_int index / rate in
         if moved physics' then
           (case movedSample physics' duration t of (force, velocity) \<Rightarrow>
            case noise smp 0.01 of (n1, smp1) \<Rightarrow>
            case noise smp1 0.006 of (n2, smp2) \<Rightarrow>
              samples_loop physics' duration rate cnt (index + 1) smp2
                (ts @ [t]) (fs @ [force + n1]) (vs @ [velocity + n2]))
         else
           (case stillSample physics' t of (force, velocity) \<Rightarrow>
            case noise smp 0.015 of (n1, smp1) \<Rightarrow>
            case noise smp1 0.003 of (n2, smp2) \<Rightarrow>
              samples_loop physics' duration rate cnt (index + 1) smp2
                (ts @ [t]) (fs @ [force + n1]) (vs @ [velocity + n2])))
      else (ts, fs, vs))"
  by pat_completeness auto
termination
  by (relation "measure (\<lambda>(p, d, r, cnt, index, rest). nat (cnt - index))") auto

declare samples_loop.simps [simp del]

text \<open>\<open>options.durationS ?? 4.5\<close> and \<open>options.sampleRateHz ?? 60\<close>.\<close>

definition durationS_of :: "SignalOptions \<Rightarrow> real" where
  "durationS_of options = (case durationS options of None \<Rightarrow> 4.5 | Some d \<Rightarrow> d)"

definition sampleRateHz_of :: "SignalOptions \<Rightarrow> real" where
  "sampleRateHz_of options = (case sampleRateHz options of None \<Rightarrow> 60 | Some r \<Rightarrow> r)"

definition generateTrialSignals :: "TrialPhysics \<Rightarrow> SignalOptions \<Rightarrow> TrialSignals" where
  "generateTrialSignals physics' options =
     (let duration = durationS_of options;
          rate = sampleRateHz_of options;
          cnt = \<lfloor>duration * rate\<rfloor> + 1;
          smp = buildNoiseSampler (seed options) (noiseEnabled options)
      in case samples_loop physics' duration rate cnt 0 smp [] [] [] of
           (ts, fs, vs) \<Rightarrow>
             \<lparr>timesS = ts, forceN = fs, velocityMps = vs,
              motionWindow =
                (if moved physics'
                 then Some \<lparr>startS = accelStartS_of, endS = accelEndS_of physics' duration\<rparr>
                 else None),
              phases =
                \<lparr>initialStartS = initialStartS_of, accelStartS = accelStartS_of,
                 accelEndS = accelEndS_of physics' duration,
                 stopEndS = stopEndS_of physics' duration\<rparr>\<rparr>)"

section \<open>Selections and measurements\<close>

text \<open>\<open>normalizeSelection\<close> of graphs.js; \<open>None\<close> is \<open>null\<close>.\<close>

definition normalizeSelection :: "Interval option \<Rightarrow> Interval option" where
  "normalizeSelection selection =
     (case selection of
        None \<Rightarrow> None
      | Some sel \<Rightarrow>
          Some \<lparr>startS = min (startS sel) (endS sel), endS = max (startS sel) (endS sel)\<rparr>)"

text \<open>\<open>normalize\<close> of app.js, on an interval that is not \<open>null\<close>.\<close>

definition normalize_app :: "Interval \<Rightarrow> Interval" where
  "normalize_app selection =
     \<lparr>startS = min (startS selection) (endS selection),
      endS = max (startS selection) (endS selection)\<rparr>"

definition MIN_SELECTION_WIDTH_S :: real where
  "MIN_SELECTION_WIDTH_S = 0.12"

definition MIN_POINTS :: nat where
  "MIN_POINTS = 6"

definition isValidSelection :: "Interval option \<Rightarrow> bool" where
  "isValidSelection selection =
     (case selection of
        None \<Rightarrow> False
      | Some sel \<Rightarrow> \<bar>endS sel - startS sel\<bar> \<ge> MIN_SELECTION_WIDTH_S)"

record TrialMeasurement =
  forceWindow :: "Interval option"
  velocityWindow :: "Interval option"
  forceMeanN :: "real option"
  measured_accelerationMps2 :: "real option"

record CurrentTrial =
  trial_id :: nat
  physics :: TrialPhysics
  signals :: TrialSignals

text \<open>
  The application state, with the two fields that \<open>updateMeasurementValues\<close> reads and
  writes; the others (\<open>scenario\<close>, \<open>presetId\<close>, \<open>trialRecords\<close>, ...) are the
  record's extension, which an update leaves as it is, as the spread \<open>...previous\<close> does.
\<close>

record AppState =
  currentTrial :: "CurrentTrial option"
  measurement :: TrialMeasurement

text \<open>The two measurements of \<open>updateMeasurementValues\<close>, each from its window.\<close>

definition measureForceMean ::
  "(real \<Rightarrow> real) \<Rightarrow> real list \<Rightarrow> real list \<Rightarrow> Interval option \<Rightarrow> anomaly + real option"
where
  "measureForceMean rnd ts fs window =
     (if isValidSelection window then
        (case window of
           None \<Rightarrow> Inr None
         | Some w \<Rightarrow>
             (let selection = normalize_app w in
              case sliceWindow ts fs (startS selection) (endS selection) of
                Inl e \<Rightarrow> Inl e
              | Inr selected \<Rightarrow>
                  if length (values_w selected) \<ge> MIN_POINTS then
                    (case mean rnd (values_w selected) of
                       Inl e \<Rightarrow> Inl e
                     | Inr m \<Rightarrow> Inr (Some m))
                  else Inr None))
      else Inr None)"

definition measureAcceleration ::
  "(real \<Rightarrow> real) \<Rightarrow> real list \<Rightarrow> real list \<Rightarrow> Interval option \<Rightarrow> anomaly + real option"
where
  "measureAcceleration rnd ts vs window =
     (if isValidSelection window then
        (case window of
           None \<Rightarrow> Inr None
         | Some w \<Rightarrow>
             (let selection = normalize_app w in
              case linearRegressionInWindow rnd ts vs (startS selection) (endS selection) of
                Inl e \<Rightarrow> Inl e
              | Inr None \<Rightarrow> Inr None
              | Inr (Some fit) \<Rightarrow>
                  if count fit \<ge> MIN_POINTS then Inr (Some (slope fit)) else Inr None))
      else Inr None)"

definition updateMeasurementValues ::
  "(real \<Rightarrow> real) \<Rightarrow> 'a AppState_scheme \<Rightarrow> anomaly + 'a AppState_scheme" where
  "updateMeasurementValues rnd state =
     (case currentTrial state of
        None \<Rightarrow>
          Inr (state\<lparr>measurement :=
                 (measurement state)\<lparr>forceMeanN := None, measured_accelerationMps2 := None\<rparr>\<rparr>)
      | Some trial \<Rightarrow>
          (case measureForceMean rnd (timesS (signals trial)) (forceN (signals trial))
                  (forceWindow (measurement state)) of
             Inl e \<Rightarrow> Inl e
           | Inr forceMean \<Rightarrow>
               (case measureAcceleration rnd (timesS (signals trial)) (velocityMps (signals trial))
                       (velocityWindow (measurement state)) of
                  Inl e \<Rightarrow> Inl e
                | Inr acceleration \<Rightarrow>
                    Inr (state\<lparr>measurement :=
                           (measurement state)\<lparr>forceMeanN := forceMean,
                              measured_accelerationMps2 := acceleration\<rparr>\<rparr>))))"

section \<open>Notions used in the statements\<close>

text \<open>All the elements of a list are equal (the empty and the one-element list included).\<close>

definition all_equal :: "real list \<Rightarrow> bool" where
  "all_equal xs \<longleftrightarrow> (\<forall>a\<in>set xs. \<forall>b\<in>set xs. a = b)"

text \<open>
  Physics results for the examples, those of the repository's tests: the cart alone on
  the low-friction preset under a hanging mass of 0.4 kg, which moves, and the cart with
  the pad on the high-friction preset under 0.1 kg, which does not.
\<close>

abbreviation example_moved :: TrialPhysics where
  "example_moved \<equiv>
     \<lparr>config =
        \<lparr>config_scenario = cart_only, scenarioLabel = ''Cart Only'',
         config_presetId = ''low'', presetLabel = ''Low Friction'', config_cartMassKg = 0.5,
         config_padMassKg = 0.2, systemMassKg = 0.5, dragN = 0.06, startThresholdN = 0.04\<rparr>,
      physics_hangingMassKg = 0.4, pullingForceN = 3.924, netForceN = 3.864,
      accelerationMps2 = 322 / 75, tensionN = 331 / 150, moved = True,
      travelTimeS = Some (sqrt (90 / 161))\<rparr>"

abbreviation example_still :: TrialPhysics where
  "example_still \<equiv>
     \<lparr>config =
        \<lparr>config_scenario = cart_plus_pad, scenarioLabel = ''Cart + Friction Pad'',
         config_presetId = ''high'', presetLabel = ''High Friction'', config_cartMassKg = 0.5,
         config_padMassKg = 0.24, systemMassKg = 0.74, dragN = 1.7, startThresholdN = 1.35\<rparr>,
      physics_hangingMassKg = 0.1, pullingForceN = 0.981, netForceN = 0,
      accelerationMps2 = 0, tensionN = 0.981, moved = False, travelTimeS = None\<rparr>"

text \<open>
  A state for the examples: six samples one second apart, a force window 0.1 s wide and
  a velocity window dragged backwards over all the samples.
\<close>

abbreviation example_state :: AppState where
  "example_state \<equiv>
     \<lparr>currentTrial =
        Some \<lparr>trial_id = 1, physics = example_moved,
              signals =
                \<lparr>timesS = [0, 1, 2, 3, 4, 5], forceN = [1, 1, 1, 1, 1, 1],
                 velocityMps = [0, 2, 4, 6, 8, 10], motionWindow = None,
                 phases = \<lparr>initialStartS = 0, accelStartS = 0.7, accelEndS = 1.8,
                           stopEndS = 2.25\<rparr>\<rparr>\<rparr>,
      measurement =
        \<lparr>forceWindow = Some \<lparr>startS = 0, endS = 0.1\<rparr>,
         velocityWindow = Some \<lparr>startS = 5, endS = 0\<rparr>,
         forceMeanN = None, measured_accelerationMps2 = None\<rparr>\<rparr>"

section \<open>Properties of the rounding\<close>

lemma round_half_even_int: "round_half_even (of_int k) = k"
  by (simp add: round_half_even_def)

lemma floor_log2_eq:
  assumes "2 powi e \<le> \<bar>x\<bar>" "\<bar>x\<bar> < 2 powi (e + 1)"
  shows "\<lfloor>log 2 \<bar>x\<bar>\<rfloor> = e"
proof -
  have pos: "0 < \<bar>x\<bar>" using assms(1) by (rule less_le_trans[rotated]) simp
  have "(2::real) powr real_of_int e = 2 powi e" "(2::real) powr (real_of_int e + 1) = 2 powi (e + 1)"
    using powr_real_of_int'[of "2::real" e] powr_real_of_int'[of "2::real" "e + 1"] by simp_all
  with assms pos show ?thesis
    by (simp add: floor_log_eq_powr_iff)
qed

lemma binary64_at:
  assumes "2 powi e \<le> \<bar>x\<bar>" "\<bar>x\<bar> < 2 powi (e + 1)" "- 1022 \<le> e"
  shows "binary64 x = of_int (round_half_even (x / 2 powi (e - 52))) * 2 powi (e - 52)"
proof -
  have "0 < \<bar>x\<bar>" using assms(1) by (rule less_le_trans[rotated]) simp
  then have "x \<noteq> 0" by auto
  with floor_log2_eq[OF assms(1,2)] assms(3) show ?thesis
    by (simp add: binary64_def Let_def max_def)
qed

lemma binary64_of_int:
  assumes "\<bar>n\<bar> < 2 ^ 53"
  shows "binary64 (of_int n) = of_int n"
proof (cases "n = 0")
  case True
  then show ?thesis by (simp add: binary64_def)
next
  case False
  define e where "e = \<lfloor>log 2 \<bar>real_of_int n\<bar>\<rfloor>"
  have pos: "0 < \<bar>real_of_int n\<bar>" using False by simp
  have b: "2 powr real_of_int e \<le> \<bar>real_of_int n\<bar>" "\<bar>real_of_int n\<bar> < 2 powr (real_of_int e + 1)"
    using floor_log_eq_powr_iff[of "\<bar>real_of_int n\<bar>" 2 e] pos by (simp_all add: e_def)
  have "1 \<le> \<bar>real_of_int n\<bar>" using False by (simp flip: of_int_abs add: One_nat_def)
  then have "0 \<le> log 2 \<bar>real_of_int n\<bar>" by simp
  then have e0: "0 \<le> e" by (simp add: e_def)
  have "\<bar>real_of_int n\<bar> < 2 ^ 53" using assms by (simp flip: of_int_abs add: of_int_less_numeral_power_cancel_iff)
  then have "log 2 \<bar>real_of_int n\<bar> < 53"
    using pos by (simp add: log_less_iff)
  then have e52: "e \<le> 52" by (simp add: e_def floor_le_iff) 
  have ulp: "(2::real) powi (e - 52) = 1 / 2 ^ nat (52 - e)"
    using e52 by (cases "e = 52") (simp_all add: power_int_def power_one_over)
  have "real_of_int n / 2 powi (e - 52) = of_int (n * 2 ^ nat (52 - e))"
    by (simp add: ulp)
  then have "round_half_even (real_of_int n / 2 powi (e - 52)) = n * 2 ^ nat (52 - e)"
    by (simp only: round_half_even_int)
  then have "of_int (round_half_even (real_of_int n / 2 powi (e - 52))) * 2 powi (e - 52) = real_of_int n"
    by (simp add: ulp)
  moreover have "max e (- 1022) = e" using e0 by simp
  ultimately show ?thesis using False
    by (simp add: binary64_def Let_def e_def[symmetric])
qed

lemma binary64_below_one:
  assumes "1 / 2 ^ k \<le> \<bar>x\<bar>" "\<bar>x\<bar> < 2 / 2 ^ k" "0 < k" "k \<le> 1022"
  shows "binary64 x = of_int (round_half_even (x * 2 ^ (k + 52))) / 2 ^ (k + 52)"
proof -
  have p: "(2::real) powi (- int k) = 1 / 2 ^ k"
    by (simp add: power_int_def power_one_over)
  have q: "(2::real) powi (- int k + 1) = 2 / 2 ^ k"
    using power_int_add_1[of "2::real" "- int k"] p by simp
  have u: "(2::real) powi (- int k - 52) = 1 / 2 ^ (k + 52)"
    using assms(3) by (simp add: power_int_def power_one_over nat_add_distrib)
  from binary64_at[of "- int k" x] assms p q u show ?thesis by simp
qed

lemma binary64_numeral:
  "numeral k < (2::int) ^ 53 \<Longrightarrow> binary64 (numeral k) = numeral k"
  using binary64_of_int[of "numeral k"] by simp

lemma binary64_neg_numeral:
  "numeral k < (2::int) ^ 53 \<Longrightarrow> binary64 (- numeral k) = - numeral k"
  using binary64_of_int[of "- numeral k"] by simp

lemma binary64_zero_one: "binary64 0 = 0" "binary64 1 = 1" "binary64 (- 1) = - 1"
  using binary64_of_int[of 0] binary64_of_int[of 1] binary64_of_int[of "- 1"] by simp_all

lemmas binary64_small = binary64_numeral binary64_neg_numeral binary64_zero_one

text \<open>
  The number that the literal \<open>0.1\<close> denotes, and the mean of three of them as the
  program computes it: the sum of the three is rounded up, and so is a third of the sum.
\<close>

lemma binary64_tenth: "binary64 (1 / 10) = 3602879701896397 / 36028797018963968"
  by (subst binary64_below_one[where k = 4]) (simp_all add: round_half_even_def)

lemma binary64_tenth_fixed:
  "binary64 (3602879701896397 / 36028797018963968) = 3602879701896397 / 36028797018963968"
  by (subst binary64_below_one[where k = 4]) (simp_all add: round_half_even_def)

lemma binary64_two_tenths:
  "binary64 (3602879701896397 / 18014398509481984) = 3602879701896397 / 18014398509481984"
  by (subst binary64_below_one[where k = 3]) (simp_all add: round_half_even_def)

lemma binary64_three_tenths:
  "binary64 (10808639105689191 / 36028797018963968) = 1351079888211149 / 4503599627370496"
  by (subst binary64_below_one[where k = 2]) (simp_all add: round_half_even_def)

lemma binary64_third_of_sum:
  "binary64 (1351079888211149 / 13510798882111488) = 7205759403792795 / 72057594037927936"
  by (subst binary64_below_one[where k = 4]) (simp_all add: round_half_even_def)

lemma binary64_deviation:
  "binary64 (- (1 / 72057594037927936)) = - (1 / 72057594037927936)"
  by (subst binary64_below_one[where k = 56]) (simp_all add: round_half_even_def)

lemma binary64_deviation_squared:
  "binary64 (1 / 5192296858534827628530496329220096) = 1 / 5192296858534827628530496329220096"
  by (subst binary64_below_one[where k = 112]) (simp_all add: round_half_even_def)

lemma binary64_deviation_squared_twice:
  "binary64 (1 / 2596148429267413814265248164610048) = 1 / 2596148429267413814265248164610048"
  by (subst binary64_below_one[where k = 111]) (simp_all add: round_half_even_def)

lemma binary64_deviation_squared_thrice:
  "binary64 (3 / 5192296858534827628530496329220096) = 3 / 5192296858534827628530496329220096"
  by (subst binary64_below_one[where k = 111]) (simp_all add: round_half_even_def)

lemma binary64_deviation_pos:
  "binary64 (1 / 72057594037927936) = 1 / 72057594037927936"
  by (subst binary64_below_one[where k = 56]) (simp_all add: round_half_even_def)

section \<open>Properties of regression.js\<close>

lemma mean_total: "vs \<noteq> [] \<Longrightarrow> \<exists>m. mean rnd vs = Inr m"
  by (simp add: mean_def divide_js_def)

lemma linearRegression_null_iff_computed:
  "linearRegression rnd x y = Inr None \<longleftrightarrow>
     length x \<noteq> length y \<or> length x < 2 \<or>
     (\<exists>xMean yMean. mean rnd x = Inr xMean \<and> mean rnd y = Inr yMean \<and>
        fst (sums_loop rnd x y xMean yMean) = 0)"
proof (cases "length x \<noteq> length y \<or> length x < 2")
  case True
  then show ?thesis by (auto simp: linearRegression_def)
next
  case False
  then have "x \<noteq> []" "y \<noteq> []" by auto
  then obtain xm ym where m: "mean rnd x = Inr xm" "mean rnd y = Inr ym"
    using mean_total by blast
  obtain ssxx ssxy sst where s: "sums_loop rnd x y xm ym = (ssxx, ssxy, sst)"
    by (metis prod_cases3)
  from False m s show ?thesis
    by (simp add: linearRegression_def divide_js_def Let_def)
qed

lemma linearRegression_no_anomaly: "linearRegression rnd x y \<noteq> Inl e"
proof (cases "length x \<noteq> length y \<or> length x < 2")
  case True
  then show ?thesis by (auto simp: linearRegression_def)
next
  case False
  then have "x \<noteq> []" "y \<noteq> []" by auto
  then obtain xm ym where m: "mean rnd x = Inr xm" "mean rnd y = Inr ym"
    using mean_total by blast
  obtain ssxx ssxy sst where s: "sums_loop rnd x y xm ym = (ssxx, ssxy, sst)"
    by (metis prod_cases3)
  from False m s show ?thesis
    by (simp add: linearRegression_def divide_js_def Let_def)
qed

lemma linearRegression_count: "linearRegression rnd x y = Inr (Some f) \<Longrightarrow> count f = length x"
  by (auto simp: linearRegression_def Let_def split: if_splits sum.splits prod.splits)

lemma linearRegression_r2_computed:
  assumes "linearRegression rnd x y = Inr (Some f)"
    and "mean rnd x = Inr xMean" "mean rnd y = Inr yMean"
    and "snd (snd (sums_loop rnd x y xMean yMean)) = 0"
  shows "r2 f = 1"
proof -
  obtain ssxx ssxy where s: "sums_loop rnd x y xMean yMean = (ssxx, ssxy, 0)"
    using assms(4) by (metis prod.collapse)
  from assms(1-3) s show ?thesis
    by (auto simp: linearRegression_def divide_js_def Let_def split: if_splits)
qed

lemma foldl_add_sum_list:
  "foldl (\<lambda>sum value. sum + value) a xs = a + sum_list (xs :: real list)"
  by (induction xs arbitrary: a) (simp_all add: add.assoc)

lemma mean_exact: "xs \<noteq> [] \<Longrightarrow> mean exact xs = Inr (sum_list xs / real (length xs))"
  by (simp add: mean_def divide_js_def foldl_add_sum_list)

lemma sums_foldl:
  "foldl (sums_step exact x y xm ym) (a, b, c) [0..<n] =
     (a + (\<Sum>i<n. (x ! i - xm) * (x ! i - xm)),
      b + (\<Sum>i<n. (x ! i - xm) * (y ! i - ym)),
      c + (\<Sum>i<n. (y ! i - ym) * (y ! i - ym)))"
  by (induction n) (simp_all add: sums_step_def Let_def add.assoc)

lemma sums_loop_exact:
  "sums_loop exact x y xm ym =
     ((\<Sum>i<length x. (x ! i - xm) * (x ! i - xm)),
      (\<Sum>i<length x. (x ! i - xm) * (y ! i - ym)),
      (\<Sum>i<length x. (y ! i - ym) * (y ! i - ym)))"
  by (simp add: sums_loop_def sums_foldl)

lemma sum_squares_zero_iff:
  "(\<Sum>i<(n::nat). (f i - m) * (f i - m)) = (0::real) \<longleftrightarrow> (\<forall>i<n. f i = m)"
proof -
  have "(\<Sum>i<n. (f i - m) * (f i - m)) = 0 \<longleftrightarrow> (\<forall>i\<in>{..<n}. (f i - m) * (f i - m) = 0)"
    by (rule sum_nonneg_eq_0_iff) simp_all
  then show ?thesis by auto
qed

lemma all_equal_mean:
  assumes "xs \<noteq> []" "all_equal xs"
  shows "\<forall>i<length xs. xs ! i = sum_list xs / real (length xs)"
proof -
  obtain c where c: "c = hd xs" by simp
  have allc: "\<forall>a\<in>set xs. a = c" using assms c by (auto simp: all_equal_def)
  then have "xs = replicate (length xs) c"
    by (metis replicate_eqI)
  then have "sum_list xs = real (length xs) * c"
    by (metis sum_list_replicate)
  with assms(1) have "sum_list xs / real (length xs) = c" by simp
  with allc show ?thesis by simp
qed

lemma nth_const_all_equal: "(\<forall>i<length xs. xs ! i = m) \<Longrightarrow> all_equal xs"
  by (auto simp: all_equal_def in_set_conv_nth)

lemma linearRegression_null_iff_exact:
  "linearRegression exact x y = Inr None \<longleftrightarrow>
     length x \<noteq> length y \<or> length x < 2 \<or> all_equal x"
proof (cases "length x \<noteq> length y \<or> length x < 2")
  case True
  then show ?thesis by (auto simp: linearRegression_def)
next
  case False
  then have ne: "x \<noteq> []" "y \<noteq> []" by auto
  let ?xm = "sum_list x / real (length x)"
  have "linearRegression exact x y = Inr None \<longleftrightarrow>
          (\<Sum>i<length x. (x ! i - ?xm) * (x ! i - ?xm)) = 0"
    using False ne
    by (simp add: linearRegression_null_iff_computed mean_exact sums_loop_exact)
  also have "\<dots> \<longleftrightarrow> (\<forall>i<length x. x ! i = ?xm)" by (rule sum_squares_zero_iff)
  also have "\<dots> \<longleftrightarrow> all_equal x"
    using all_equal_mean[OF ne(1)] nth_const_all_equal by blast
  finally show ?thesis using False by simp
qed

lemma linearRegression_r2_exact:
  assumes "linearRegression exact x y = Inr (Some f)" "all_equal y"
  shows "r2 f = 1"
proof -
  from assms(1) have len: "length x = length y" "\<not> length x < 2"
    by (auto simp: linearRegression_def split: if_splits)
  then have ne: "x \<noteq> []" "y \<noteq> []" by auto
  have "(\<Sum>i<length x. (y ! i - sum_list y / real (length y))
           * (y ! i - sum_list y / real (length y))) = 0"
    using all_equal_mean[OF ne(2) assms(2)] len by simp
  then have "snd (snd (sums_loop exact x y (sum_list x / real (length x))
                         (sum_list y / real (length y)))) = 0"
    by (simp add: sums_loop_exact)
  from linearRegression_r2_computed[OF assms(1) mean_exact[OF ne(1)] mean_exact[OF ne(2)] this]
  show ?thesis .
qed

lemma sliceWindow_loop_Inr:
  "sliceWindow_loop ts vs lo hi index st sv = Inr w \<Longrightarrow> index \<le> length ts \<Longrightarrow>
     times_w w = st @ filter (\<lambda>t. lo \<le> t \<and> t \<le> hi) (drop index ts) \<and>
     length (values_w w) = length sv + length (filter (\<lambda>t. lo \<le> t \<and> t \<le> hi) (drop index ts))"
proof (induction ts vs lo hi index st sv rule: sliceWindow_loop.induct)
  case (1 ts vs lo hi index st sv)
  note unfold = sliceWindow_loop.simps[of ts vs lo hi index]
  show ?case
  proof (cases "index < length ts")
    case False
    with "1.prems" show ?thesis by (auto simp: unfold)
  next
    case True
    then have d: "drop index ts = ts ! index # drop (Suc index) ts"
      by (simp add: Cons_nth_drop_Suc)
    show ?thesis
    proof (cases "lo \<le> ts ! index \<and> ts ! index \<le> hi")
      case inw: True
      with "1.prems" True have iv: "index < length vs"
        by (auto simp: unfold Let_def split: if_splits)
      with "1.prems" True inw
      have rec: "sliceWindow_loop ts vs lo hi (index + 1) (st @ [ts ! index]) (sv @ [vs ! index]) = Inr w"
        by (simp add: unfold Let_def)
      from "1.IH"(1)[OF True refl _ iv rec] inw True d show ?thesis by simp
    next
      case out: False
      with "1.prems" True
      have rec: "sliceWindow_loop ts vs lo hi (index + 1) st sv = Inr w"
        by (auto simp: unfold Let_def)
      from "1.IH"(2)[OF True refl _ rec] out True d show ?thesis by auto
    qed
  qed
qed

lemma sliceWindow_loop_parallel:
  "length ts \<le> length vs \<Longrightarrow> index \<le> length ts \<Longrightarrow>
   sliceWindow_loop ts vs lo hi index st sv =
     Inr \<lparr>times_w = st @ map fst (filter (\<lambda>(t, v). lo \<le> t \<and> t \<le> hi) (drop index (zip ts vs))),
          values_w = sv @ map snd (filter (\<lambda>(t, v). lo \<le> t \<and> t \<le> hi) (drop index (zip ts vs)))\<rparr>"
proof (induction ts vs lo hi index st sv rule: sliceWindow_loop.induct)
  case (1 ts vs lo hi index st sv)
  note unfold = sliceWindow_loop.simps[of ts vs lo hi index]
  show ?case
  proof (cases "index < length ts")
    case False
    with "1.prems" show ?thesis by (subst sliceWindow_loop.simps) simp
  next
    case True
    with "1.prems" have iv: "index < length vs" by simp
    from True iv have d: "drop index (zip ts vs) = (ts ! index, vs ! index) # drop (Suc index) (zip ts vs)"
      by (simp add: Cons_nth_drop_Suc[symmetric])
    show ?thesis
    proof (cases "lo \<le> ts ! index \<and> ts ! index \<le> hi")
      case inw: True
      from "1.IH"(1)[OF True refl _ iv "1.prems"(1)] inw True iv d show ?thesis
        by (simp add: unfold Let_def)
    next
      case out: False
      from "1.IH"(2)[OF True refl _ "1.prems"(1)] out True iv d show ?thesis
        by (auto simp add: unfold Let_def)
    qed
  qed
qed

lemma sliceWindow_parallel:
  "length ts \<le> length vs \<Longrightarrow>
   sliceWindow ts vs a b =
     Inr \<lparr>times_w = map fst (filter (\<lambda>(t, v). min a b \<le> t \<and> t \<le> max a b) (zip ts vs)),
          values_w = map snd (filter (\<lambda>(t, v). min a b \<le> t \<and> t \<le> max a b) (zip ts vs))\<rparr>"
  by (simp add: sliceWindow_def Let_def sliceWindow_loop_parallel)

lemma sliceWindow_Inr:
  assumes "sliceWindow ts vs a b = Inr w"
  shows "times_w w = filter (\<lambda>t. min a b \<le> t \<and> t \<le> max a b) ts"
    and "length (values_w w) = length (times_w w)"
  using sliceWindow_loop_Inr[of ts vs "min a b" "max a b" 0 "[]" "[]" w] assms
  by (simp_all add: sliceWindow_def Let_def)


lemma mean_three_tenths:
  "mean binary64 [3602879701896397 / 36028797018963968, 3602879701896397 / 36028797018963968,
      3602879701896397 / 36028797018963968] =
     Inr (7205759403792795 / 72057594037927936)"
  by (simp add: mean_def divide_js_def binary64_tenth_fixed binary64_two_tenths
      binary64_three_tenths binary64_third_of_sum)

lemma sums_three_tenths:
  "sums_loop binary64 [3602879701896397 / 36028797018963968,
      3602879701896397 / 36028797018963968, 3602879701896397 / 36028797018963968] [1, 2, 3]
     (7205759403792795 / 72057594037927936) 2 =
   (3 / 5192296858534827628530496329220096, 0, 2)"
  by (simp add: sums_loop_def sums_step_def Let_def upt_rec binary64_deviation
      binary64_deviation_pos binary64_deviation_squared binary64_deviation_squared_twice
      binary64_deviation_squared_thrice binary64_small)

lemma mean_one_two_three: "mean binary64 [1, 2, 3] = Inr 2"
  by (simp add: mean_def divide_js_def binary64_small)

text \<open>
  C4, as the claim states it, fails in the arithmetic of the program. The three \<open>x\<close> are
  the number \<open>0.1\<close>; their sum is rounded to \<open>0.30000000000000004\<close> and their mean to
  \<open>0.10000000000000002\<close>, which is \<open>0.1 + 2^-56\<close>; each deviation is \<open>-2^-56\<close> and the sum
  of the squares is \<open>3 * 2^-112\<close>, not zero: a fit is returned, of slope 0 and \<open>r2\<close> 0.
\<close>

theorem linearRegression_equal_x_counterexample:
  "all_equal [binary64 (1 / 10), binary64 (1 / 10), binary64 (1 / 10)] \<and>
   linearRegression binary64 [binary64 (1 / 10), binary64 (1 / 10), binary64 (1 / 10)] [1, 2, 3] =
     Inr (Some \<lparr>slope = 0, intercept = 2, r2 = 0, count = 3\<rparr>)"
  unfolding binary64_tenth
  by (simp add: all_equal_def linearRegression_def mean_three_tenths mean_one_two_three
      sums_three_tenths divide_js_def residual_loop_def residual_step_def Let_def upt_rec
      binary64_small)

text \<open>
  C4, amended. \<open>linearRegression\<close> returns \<open>null\<close> exactly when the two arrays differ in
  length, hold fewer than two points, or the sum of the squared deviations of \<open>x\<close>, as
  computed, is zero; in exact arithmetic that is when all the \<open>x\<close> are equal. It never
  divides by zero: no call ends in an anomaly. When the total sum of squares of \<open>y\<close>, as
  computed, is zero and a fit is returned, its \<open>r2\<close> is exactly 1; in exact arithmetic
  that is so when all the \<open>y\<close> are equal.
\<close>

theorem linearRegression_degenerate:
  "(linearRegression rnd x y = Inr None \<longleftrightarrow>
      length x \<noteq> length y \<or> length x < 2 \<or>
      (\<exists>xMean yMean. mean rnd x = Inr xMean \<and> mean rnd y = Inr yMean \<and>
         fst (sums_loop rnd x y xMean yMean) = 0)) \<and>
   (linearRegression exact x y = Inr None \<longleftrightarrow>
      length x \<noteq> length y \<or> length x < 2 \<or> all_equal x) \<and>
   (\<forall>e. linearRegression rnd x y \<noteq> Inl e) \<and>
   (\<forall>f xMean yMean.
      linearRegression rnd x y = Inr (Some f) \<and> mean rnd x = Inr xMean \<and>
      mean rnd y = Inr yMean \<and> snd (snd (sums_loop rnd x y xMean yMean)) = 0
      \<longrightarrow> r2 f = 1) \<and>
   (\<forall>f. linearRegression exact x y = Inr (Some f) \<and> all_equal y \<longrightarrow> r2 f = 1)"
  using linearRegression_null_iff_computed[of rnd x y] linearRegression_null_iff_exact[of x y]
    linearRegression_no_anomaly[of rnd x y] linearRegression_r2_computed[of rnd x y]
    linearRegression_r2_exact[of x y]
  by blast

theorem linearRegression_degenerate_witness:
  "all_equal [1, 1] \<and> linearRegression exact [1, 1] [2, 3] = Inr None \<and>
   \<not> all_equal [0, 1] \<and> all_equal [5, 5] \<and>
   (\<exists>f. linearRegression exact [0, 1] [5, 5] = Inr (Some f) \<and> r2 f = 1)"
proof -
  have a: "all_equal [1, 1]" "\<not> all_equal [0, 1]" "all_equal [5, 5]"
    by (simp_all add: all_equal_def)
  note flat = linearRegression_degenerate[of exact "[1, 1]" "[2, 3]"]
  note line = linearRegression_degenerate[of exact "[0, 1]" "[5, 5]"]
  have n: "linearRegression exact [1, 1] [2, 3] = Inr None"
    using flat[THEN conjunct2, THEN conjunct1] a by simp
  have "linearRegression exact [0, 1] [5, 5] \<noteq> Inr None"
    using line[THEN conjunct2, THEN conjunct1] a by simp
  moreover have "\<forall>e. linearRegression exact [0, 1] [5, 5] \<noteq> Inl e"
    using line by blast
  ultimately obtain f where f: "linearRegression exact [0, 1] [5, 5] = Inr (Some f)"
    by (cases "linearRegression exact [0, 1] [5, 5]") auto
  then have "r2 f = 1"
    using line a by blast
  with a n f show ?thesis by blast
qed

lemma sums_example: "sums_loop rnd [0, 1, 2, 3, 4] [2, 5, 8, 11, 14] 2 8 = (10, 30, 90)"
  if "rnd = exact \<or> rnd = binary64"
  using that by (auto simp: sums_loop_def sums_step_def Let_def upt_rec binary64_small)

lemma regression_example:
  "linearRegression rnd [0, 1, 2, 3, 4] [2, 5, 8, 11, 14] =
     Inr (Some \<lparr>slope = 3, intercept = 2, r2 = 1, count = 5\<rparr>)"
  if "rnd = exact \<or> rnd = binary64"
  using that sums_example[OF that]
  by (auto simp: linearRegression_def mean_def divide_js_def residual_loop_def
      residual_step_def Let_def upt_rec binary64_small)

text \<open>
  C5. On the five points of the line \<open>y = 3x + 2\<close> the fit is exactly slope 3,
  intercept 2, \<open>r2\<close> 1 and count 5, in the arithmetic of the program as in the exact
  one: every intermediate value is a small integer, which no rounding changes.
\<close>

theorem linearRegression_exact_line:
  "linearRegression binary64 [0, 1, 2, 3, 4] [2, 5, 8, 11, 14] =
     Inr (Some \<lparr>slope = 3, intercept = 2, r2 = 1, count = 5\<rparr>) \<and>
   linearRegression exact [0, 1, 2, 3, 4] [2, 5, 8, 11, 14] =
     Inr (Some \<lparr>slope = 3, intercept = 2, r2 = 1, count = 5\<rparr>)"
  using regression_example[of binary64] regression_example[of exact] by simp

theorem linearRegression_exact_line_witness:
  "\<exists>f. linearRegression binary64 [0, 1, 2, 3, 4] [2, 5, 8, 11, 14] = Inr (Some f) \<and>
       slope f = 3 \<and> intercept f = 2 \<and> r2 f = 1 \<and> count f = 5"
  using linearRegression_exact_line by simp

lemma slice_example:
  "sliceWindow [0, 1, 2, 3, 4, 5] [1, 3, 5, 7, 10, 13] 1 3 =
     Inr \<lparr>times_w = [1, 2, 3], values_w = [3, 5, 7]\<rparr>"
  by (simp add: sliceWindow_parallel)

lemma sums_example_window: "sums_loop rnd [1, 2, 3] [3, 5, 7] 2 5 = (2, 4, 8)"
  if "rnd = exact \<or> rnd = binary64"
  using that by (auto simp: sums_loop_def sums_step_def Let_def upt_rec binary64_small)

lemma regression_example_window:
  "linearRegression rnd [1, 2, 3] [3, 5, 7] =
     Inr (Some \<lparr>slope = 2, intercept = 1, r2 = 1, count = 3\<rparr>)"
  if "rnd = exact \<or> rnd = binary64"
  using that sums_example_window[OF that]
  by (auto simp: linearRegression_def mean_def divide_js_def residual_loop_def
      residual_step_def Let_def upt_rec binary64_small)

text \<open>
  C6. \<open>sliceWindow\<close> normalises the window to \<open>[min, max]\<close> and returns, of two
  parallel arrays, exactly the samples whose time lies in it, both bounds included, in
  their order. On the six samples of the example, the regression in the window from 1 to 3
  sees the times 1, 2 and 3 only: slope 2, intercept 1, count 3.
\<close>

theorem sliceWindow_inclusive:
  "(length ts \<le> length vs \<longrightarrow>
      sliceWindow ts vs a b =
        Inr \<lparr>times_w = map fst (filter (\<lambda>(t, v). min a b \<le> t \<and> t \<le> max a b) (zip ts vs)),
             values_w = map snd (filter (\<lambda>(t, v). min a b \<le> t \<and> t \<le> max a b) (zip ts vs))\<rparr>) \<and>
   linearRegressionInWindow binary64 [0, 1, 2, 3, 4, 5] [1, 3, 5, 7, 10, 13] 1 3 =
     Inr (Some \<lparr>slope = 2, intercept = 1, r2 = 1, count = 3\<rparr>) \<and>
   linearRegressionInWindow exact [0, 1, 2, 3, 4, 5] [1, 3, 5, 7, 10, 13] 1 3 =
     Inr (Some \<lparr>slope = 2, intercept = 1, r2 = 1, count = 3\<rparr>)"
  using regression_example_window[of binary64] regression_example_window[of exact]
  by (simp add: sliceWindow_parallel linearRegressionInWindow_def slice_example)

theorem sliceWindow_inclusive_witness:
  "length [0, 1, 2, 3 :: real] \<le> length [10, 11, 12, 13 :: real] \<and>
   sliceWindow [0, 1, 2, 3] [10, 11, 12, 13] 2 1 = Inr \<lparr>times_w = [1, 2], values_w = [11, 12]\<rparr>"
  using sliceWindow_inclusive[of "[0, 1, 2, 3]" "[10, 11, 12, 13]" 2 1] by simp

section \<open>Properties of signals.js\<close>

lemma phases_generate:
  "phases (generateTrialSignals p opts) =
     \<lparr>initialStartS = initialStartS_of, accelStartS = accelStartS_of,
      accelEndS = accelEndS_of p (durationS_of opts),
      stopEndS = stopEndS_of p (durationS_of opts)\<rparr>"
  by (simp add: generateTrialSignals_def Let_def split: prod.split)

lemma motionWindow_generate:
  "motionWindow (generateTrialSignals p opts) =
     (if moved p
      then Some \<lparr>startS = accelStartS_of,
                  endS = accelEndS_of p (durationS_of opts)\<rparr>
      else None)"
  by (simp add: generateTrialSignals_def Let_def split: prod.split)

lemma accelDurationS_range:
  "moved p \<Longrightarrow> 1.1 \<le> accelDurationS_of p \<and> accelDurationS_of p \<le> 2.0"
  by (simp add: accelDurationS_of_def clamp_def)

lemma accelEndS_moved:
  assumes "moved p"
  shows "accelEndS_of p d = min (d - 1.2) (accelStartS_of + accelDurationS_of p)"
  using accelDurationS_range[OF assms] assms
  by (simp add: accelEndS_of_def clamp_def accelStartS_of_def max_def)

lemma stopEndS_moved:
  assumes "moved p"
  shows "stopEndS_of p d = min (d - 0.35) (accelEndS_of p d + 0.45)"
  using assms by (simp add: stopEndS_of_def clamp_def stopDurationS_of_def max_def)

lemma phase_order_iff:
  assumes "moved p"
  shows "(initialStartS_of < accelStartS_of \<and> accelStartS_of < accelEndS_of p d \<and>
          accelEndS_of p d < stopEndS_of p d) \<longleftrightarrow> d > 1.9"
proof -
  have r: "1.1 \<le> accelDurationS_of p" using accelDurationS_range[OF assms] by simp
  have e: "accelEndS_of p d \<le> d - 1.2" by (simp add: accelEndS_moved[OF assms])
  show ?thesis
    using r e
    by (auto simp: stopEndS_moved[OF assms] accelEndS_moved[OF assms] initialStartS_of_def
        accelStartS_of_def min_def)
qed

text \<open>
  C1. With the noise disabled the seed has no influence: for any two seeds the times, the
  forces and the velocities (the whole result, in fact) are the same.
\<close>

theorem generateTrialSignals_seed_ignored:
  "noiseEnabled options = False \<Longrightarrow>
     timesS (generateTrialSignals physics' (options\<lparr>seed := s1\<rparr>)) =
       timesS (generateTrialSignals physics' (options\<lparr>seed := s2\<rparr>)) \<and>
     forceN (generateTrialSignals physics' (options\<lparr>seed := s1\<rparr>)) =
       forceN (generateTrialSignals physics' (options\<lparr>seed := s2\<rparr>)) \<and>
     velocityMps (generateTrialSignals physics' (options\<lparr>seed := s1\<rparr>)) =
       velocityMps (generateTrialSignals physics' (options\<lparr>seed := s2\<rparr>)) \<and>
     generateTrialSignals physics' (options\<lparr>seed := s1\<rparr>) =
       generateTrialSignals physics' (options\<lparr>seed := s2\<rparr>)"
  by (simp add: generateTrialSignals_def buildNoiseSampler_def durationS_of_def
      sampleRateHz_of_def)

theorem generateTrialSignals_seed_ignored_witness:
  "forceN (generateTrialSignals example_moved
      \<lparr>noiseEnabled = False, seed = 1, durationS = None, sampleRateHz = None\<rparr>) =
   forceN (generateTrialSignals example_moved
      \<lparr>noiseEnabled = False, seed = 99999, durationS = None, sampleRateHz = None\<rparr>) \<and>
   velocityMps (generateTrialSignals example_moved
      \<lparr>noiseEnabled = False, seed = 1, durationS = None, sampleRateHz = None\<rparr>) =
   velocityMps (generateTrialSignals example_moved
      \<lparr>noiseEnabled = False, seed = 99999, durationS = None, sampleRateHz = None\<rparr>)"
  using generateTrialSignals_seed_ignored
    [of "\<lparr>noiseEnabled = False, seed = 0, durationS = None, sampleRateHz = None\<rparr>"
        example_moved 1 99999]
  by simp

text \<open>
  C2, as the claim states it, fails: with a duration of one second the acceleration phase
  of a moved trial ends before it starts.
\<close>

theorem phases_short_duration_counterexample:
  "\<not> accelStartS (phases (generateTrialSignals example_moved
        \<lparr>noiseEnabled = False, seed = 1, durationS = Some 1, sampleRateHz = None\<rparr>))
     < accelEndS (phases (generateTrialSignals example_moved
        \<lparr>noiseEnabled = False, seed = 1, durationS = Some 1, sampleRateHz = None\<rparr>))"
  by (simp add: phases_generate accelEndS_of_def accelStartS_of_def accelDurationS_of_def
      clamp_def durationS_of_def)

text \<open>
  C2, amended. For a moved trial the phases are strictly ordered exactly when the duration
  (4.5 s when the options give none) exceeds 1.9 s, and the motion window is the
  acceleration phase whatever the duration; for a trial that did not move the motion
  window is \<open>null\<close>.
\<close>

theorem phases_ordered:
  "(moved physics' \<longrightarrow>
      ((initialStartS (phases (generateTrialSignals physics' options))
          < accelStartS (phases (generateTrialSignals physics' options)) \<and>
        accelStartS (phases (generateTrialSignals physics' options))
          < accelEndS (phases (generateTrialSignals physics' options)) \<and>
        accelEndS (phases (generateTrialSignals physics' options))
          < stopEndS (phases (generateTrialSignals physics' options)))
       \<longleftrightarrow> durationS_of options > 1.9) \<and>
      motionWindow (generateTrialSignals physics' options) =
        Some \<lparr>startS = accelStartS (phases (generateTrialSignals physics' options)),
              endS = accelEndS (phases (generateTrialSignals physics' options))\<rparr>) \<and>
   (\<not> moved physics' \<longrightarrow> motionWindow (generateTrialSignals physics' options) = None)"
  using phase_order_iff[of physics' "durationS_of options"]
  by (simp add: phases_generate motionWindow_generate)

theorem phases_ordered_witness:
  "moved example_moved \<and>
   initialStartS (phases (generateTrialSignals example_moved
       \<lparr>noiseEnabled = False, seed = 22, durationS = None, sampleRateHz = None\<rparr>))
     < accelStartS (phases (generateTrialSignals example_moved
       \<lparr>noiseEnabled = False, seed = 22, durationS = None, sampleRateHz = None\<rparr>)) \<and>
   accelStartS (phases (generateTrialSignals example_moved
       \<lparr>noiseEnabled = False, seed = 22, durationS = None, sampleRateHz = None\<rparr>))
     < accelEndS (phases (generateTrialSignals example_moved
       \<lparr>noiseEnabled = False, seed = 22, durationS = None, sampleRateHz = None\<rparr>)) \<and>
   accelEndS (phases (generateTrialSignals example_moved
       \<lparr>noiseEnabled = False, seed = 22, durationS = None, sampleRateHz = None\<rparr>))
     < stopEndS (phases (generateTrialSignals example_moved
       \<lparr>noiseEnabled = False, seed = 22, durationS = None, sampleRateHz = None\<rparr>)) \<and>
   \<not> moved example_still \<and>
   motionWindow (generateTrialSignals example_still
       \<lparr>noiseEnabled = False, seed = 5, durationS = None, sampleRateHz = None\<rparr>) = None"
  using phases_ordered[of example_moved
      "\<lparr>noiseEnabled = False, seed = 22, durationS = None, sampleRateHz = None\<rparr>"]
    phases_ordered[of example_still
      "\<lparr>noiseEnabled = False, seed = 5, durationS = None, sampleRateHz = None\<rparr>"]
  by (simp add: durationS_of_def)

lemma samples_loop_shape:
  "samples_loop p d r cnt index smp ts fs vs = (ts', fs', vs') \<Longrightarrow>
     ts' = ts @ map (\<lambda>k. real_of_int k / r) [index..cnt - 1] \<and>
     length fs' = length fs + length [index..cnt - 1] \<and>
     length vs' = length vs + length [index..cnt - 1]"
proof (induction p d r cnt index smp ts fs vs arbitrary: ts' fs' vs' rule: samples_loop.induct)
  case (1 p d r cnt index smp ts fs vs)
  note unfold = samples_loop.simps[of p d r cnt index]
  show ?case
  proof (cases "index < cnt")
    case False
    with "1.prems" show ?thesis by (simp add: unfold)
  next
    case True
    then have up: "[index..cnt - 1] = index # [index + 1..cnt - 1]"
      by (simp add: upto_rec1)
    show ?thesis
    proof (cases "moved p")
      case m: True
      obtain force velocity where s: "movedSample p d (real_of_int index / r) = (force, velocity)"
        by (cases "movedSample p d (real_of_int index / r)")
      obtain n1 smp1 where a: "noise smp 0.01 = (n1, smp1)" by (cases "noise smp 0.01")
      obtain n2 smp2 where b: "noise smp1 0.006 = (n2, smp2)" by (cases "noise smp1 0.006")
      from "1.prems" True m s a b
      have rec: "samples_loop p d r cnt (index + 1) smp2 (ts @ [real_of_int index / r])
                   (fs @ [force + n1]) (vs @ [velocity + n2]) = (ts', fs', vs')"
        by (simp add: unfold Let_def)
      from "1.IH"(1)[OF True refl m s[symmetric] a[symmetric] b[symmetric] rec] up
      show ?thesis by simp
    next
      case m: False
      obtain force velocity where s: "stillSample p (real_of_int index / r) = (force, velocity)"
        by (cases "stillSample p (real_of_int index / r)")
      obtain n1 smp1 where a: "noise smp 0.015 = (n1, smp1)" by (cases "noise smp 0.015")
      obtain n2 smp2 where b: "noise smp1 0.003 = (n2, smp2)" by (cases "noise smp1 0.003")
      from "1.prems" True m s a b
      have rec: "samples_loop p d r cnt (index + 1) smp2 (ts @ [real_of_int index / r])
                   (fs @ [force + n1]) (vs @ [velocity + n2]) = (ts', fs', vs')"
        by (simp add: unfold Let_def)
      from "1.IH"(2)[OF True refl m s[symmetric] a[symmetric] b[symmetric] rec] up
      show ?thesis by simp
    qed
  qed
qed

lemma generate_shape:
  fixes p opts
  defines "d \<equiv> durationS_of opts"
    and "r \<equiv> sampleRateHz_of opts"
  shows "timesS (generateTrialSignals p opts) = map (\<lambda>k. real_of_int k / r) [0..\<lfloor>d * r\<rfloor>]"
    and "length (forceN (generateTrialSignals p opts)) = nat (\<lfloor>d * r\<rfloor> + 1)"
    and "length (velocityMps (generateTrialSignals p opts)) = nat (\<lfloor>d * r\<rfloor> + 1)"
proof -
  obtain ts fs vs where l: "samples_loop p d r (\<lfloor>d * r\<rfloor> + 1) 0
      (buildNoiseSampler (seed opts) (noiseEnabled opts)) [] [] [] = (ts, fs, vs)"
    by (metis prod_cases3)
  from samples_loop_shape[OF l]
  have "ts = map (\<lambda>k. real_of_int k / r) [0..\<lfloor>d * r\<rfloor>]"
    "length fs = nat (\<lfloor>d * r\<rfloor> + 1)" "length vs = nat (\<lfloor>d * r\<rfloor> + 1)"
    by (simp_all add: length_upto)
  moreover have "generateTrialSignals p opts =
      \<lparr>timesS = ts, forceN = fs, velocityMps = vs,
       motionWindow =
         (if moved p then Some \<lparr>startS = accelStartS_of, endS = accelEndS_of p d\<rparr> else None),
       phases = \<lparr>initialStartS = initialStartS_of, accelStartS = accelStartS_of,
                 accelEndS = accelEndS_of p d, stopEndS = stopEndS_of p d\<rparr>\<rparr>"
    using l by (simp add: generateTrialSignals_def d_def r_def Let_def)
  ultimately show "timesS (generateTrialSignals p opts) = map (\<lambda>k. real_of_int k / r) [0..\<lfloor>d * r\<rfloor>]"
    and "length (forceN (generateTrialSignals p opts)) = nat (\<lfloor>d * r\<rfloor> + 1)"
    and "length (velocityMps (generateTrialSignals p opts)) = nat (\<lfloor>d * r\<rfloor> + 1)"
    by simp_all
qed





lemma rng_unit_interval: "0 \<le> fst (rng st) \<and> fst (rng st) < 1"
proof -
  have "real (unat w) / 4294967296 < 1" for w :: "32 word"
  proof -
    have "unat w < 4294967296"
      using unsigned_less[of w, where ?'a = nat] by simp
    then have "real (unat w) < real 4294967296"
      by (rule less_imp_of_nat_less)
    then show ?thesis by simp
  qed
  moreover have "0 \<le> real (unat w) / 4294967296" for w :: "32 word"
    by (rule divide_nonneg_nonneg[OF of_nat_0_le_iff]) simp
  ultimately show ?thesis by (simp only: rng_def Let_def fst_conv) 
qed

lemma clamp_u1:
  "1 / 10 ^ 8 \<le> clamp r (1 / 10 ^ 8) (1 - 1 / 10 ^ 8) \<and> clamp r (1 / 10 ^ 8) (1 - 1 / 10 ^ 8) \<le> 1 - 1 / 10 ^ 8"
  by (simp add: clamp_def)

lemma box_muller_radius:
  assumes "1 / 10 ^ 8 \<le> u" "u \<le> 1 - 1 / 10 ^ 8"
  shows "0 < - 2 * ln u" and "sqrt (- 2 * ln u) \<le> sqrt (2 * ln (10 ^ 8))"
proof -
  have pos: "0 < u" using assms(1) by (rule less_le_trans[rotated]) simp
  have "u < 1" using assms(2) by simp
  with pos have "ln u < 0" by simp
  then show "0 < - 2 * ln u" by simp
  have "ln (1 / 10 ^ 8) \<le> ln u"
    using assms(1) pos by (intro ln_mono) simp_all
  moreover have "ln (1 / 10 ^ 8 :: real) = - ln (10 ^ 8)" by (simp add: ln_div)
  ultimately have "- 2 * ln u \<le> 2 * ln (10 ^ 8)" by simp
  then show "sqrt (- 2 * ln u) \<le> sqrt (2 * ln (10 ^ 8))"
    by (rule real_sqrt_le_mono)
qed

lemma noise_bounded:
  "\<bar>fst (noise (Gaussian st) scale)\<bar> \<le> sqrt (2 * ln (10 ^ 8)) * \<bar>scale\<bar>"
proof -
  obtain r1 s1 where a: "rng st = (r1, s1)" by (cases "rng st")
  obtain u2 s2 where b: "rng s1 = (u2, s2)" by (cases "rng s1")
  let ?u1 = "clamp r1 (1 / 10 ^ 8) (1 - 1 / 10 ^ 8)"
  have out: "fst (noise (Gaussian st) scale) = sqrt (- 2 * ln ?u1) * cos (2 * pi * u2) * scale"
    by (simp add: a b Let_def)
  have rad: "sqrt (- 2 * ln ?u1) \<le> sqrt (2 * ln (10 ^ 8))"
    using clamp_u1[of r1] by (intro box_muller_radius(2)) blast+
  have "0 < - 2 * ln ?u1"
    using clamp_u1[of r1] by (intro box_muller_radius(1)) blast+
  then have nn: "\<bar>sqrt (- 2 * ln ?u1)\<bar> = sqrt (- 2 * ln ?u1)"
    by (simp only: abs_of_nonneg real_sqrt_ge_zero less_imp_le)
  have c: "\<bar>cos (2 * pi * u2)\<bar> \<le> 1" by (rule abs_cos_le_one)
  have "\<bar>sqrt (- 2 * ln ?u1)\<bar> * \<bar>cos (2 * pi * u2)\<bar> \<le> sqrt (2 * ln (10 ^ 8)) * 1"
    unfolding nn using rad c by (intro mult_mono) simp_all
  then have "\<bar>sqrt (- 2 * ln ?u1) * cos (2 * pi * u2)\<bar> \<le> sqrt (2 * ln (10 ^ 8)) * 1"
    by (simp only: abs_mult)
  then have "\<bar>sqrt (- 2 * ln ?u1) * cos (2 * pi * u2)\<bar> * \<bar>scale\<bar> \<le> sqrt (2 * ln (10 ^ 8)) * \<bar>scale\<bar>"
    by (intro mult_right_mono) simp_all
  then show ?thesis unfolding out by (simp only: abs_mult)
qed

lemma noise_keeps_gaussian: "\<exists>st'. snd (noise (Gaussian st) scale) = Gaussian st'"
  by (simp add: Let_def split: prod.split)

lemma foldl_noise_gaussian:
  "\<exists>st'. foldl (\<lambda>smp scale. snd (noise smp scale)) (Gaussian st) scales = Gaussian st'"
proof (induction scales arbitrary: st)
  case Nil
  then show ?case by simp
next
  case (Cons a scales)
  obtain st1 where "snd (noise (Gaussian st) a) = Gaussian st1"
    using noise_keeps_gaussian by blast
  with Cons show ?case by simp
qed

text \<open>
  C9. Whatever the seed and whatever draws were made before, the sampler with noise
  enabled is over some generator state; from every state the uniform draw lies in
  \<open>[0, 1)\<close>; the first draw, clamped, lies in \<open>[1e-8, 1 - 1e-8]\<close>, so its logarithm is
  defined and negative and the square root is taken of a positive number; and the
  sample returned is bounded by \<open>sqrt (2 ln 1e8)\<close> times the scale.
\<close>

theorem noise_sampler_bounded:
  "\<exists>st. foldl (\<lambda>smp sc. snd (noise smp sc)) (buildNoiseSampler seed' True) scales = Gaussian st \<and>
        (\<forall>s. 0 \<le> fst (rng s) \<and> fst (rng s) < 1) \<and>
        1 / 10 ^ 8 \<le> clamp (fst (rng st)) (1 / 10 ^ 8) (1 - 1 / 10 ^ 8) \<and>
        clamp (fst (rng st)) (1 / 10 ^ 8) (1 - 1 / 10 ^ 8) \<le> 1 - 1 / 10 ^ 8 \<and>
        0 < - 2 * ln (clamp (fst (rng st)) (1 / 10 ^ 8) (1 - 1 / 10 ^ 8)) \<and>
        \<bar>fst (noise (Gaussian st) scale)\<bar> \<le> sqrt (2 * ln (10 ^ 8)) * \<bar>scale\<bar>"
proof -
  obtain st where st:
    "foldl (\<lambda>smp sc. snd (noise smp sc)) (buildNoiseSampler seed' True) scales = Gaussian st"
    using foldl_noise_gaussian[of "createRng seed'" scales] by (auto simp: buildNoiseSampler_def)
  have "0 < - 2 * ln (clamp (fst (rng st)) (1 / 10 ^ 8) (1 - 1 / 10 ^ 8))"
    using clamp_u1[of "fst (rng st)"] by (intro box_muller_radius(1)) blast+
  with st rng_unit_interval clamp_u1[of "fst (rng st)"] noise_bounded[of st scale]
  show ?thesis by blast
qed

theorem noise_sampler_bounded_witness:
  "\<exists>st. buildNoiseSampler 42 True = Gaussian st \<and>
        0 \<le> fst (rng st) \<and> fst (rng st) < 1 \<and>
        \<bar>fst (noise (Gaussian st) 0.01)\<bar> \<le> sqrt (2 * ln (10 ^ 8)) * \<bar>0.01\<bar>"
  using noise_sampler_bounded[of 42 "[]" "0.01"] by auto

section \<open>Properties of physics.js\<close>

lemma getPresetById_cases:
  "getPresetById pid = (if pid = ''low'' then Inr (PRESETS ! 0)
                        else if pid = ''medium'' then Inr (PRESETS ! 1)
                        else if pid = ''high'' then Inr (PRESETS ! 2)
                        else Inl (UnknownPreset pid))"
  by (auto simp: getPresetById_def PRESETS_def)

lemma getScenarioConfig_Inl:
  "getScenarioConfig input = Inl e \<Longrightarrow>
     e = UnknownPreset (presetId input) \<and> presetId input \<notin> {''low'', ''medium'', ''high''}"
  by (cases "scenario input")
     (auto simp: getScenarioConfig_def getPresetById_cases PRESETS_def Let_def split: if_splits)

lemma getScenarioConfig_Inr:
  "getScenarioConfig input = Inr c \<Longrightarrow>
     0 < startThresholdN c \<and> 0 < systemMassKg c \<and> 0 < dragN c"
  by (cases "scenario input")
     (auto simp: getScenarioConfig_def getPresetById_cases PRESETS_def Let_def split: if_splits)


lemma computeTrialPhysics_Threw:
  "computeTrialPhysics input = Threw e \<Longrightarrow> presetId input \<notin> {''low'', ''medium'', ''high''}"
  using getScenarioConfig_Inl[of input]
  by (auto simp: computeTrialPhysics_def Let_def divide_js_def split: sum.splits if_splits)

lemma computeTrialPhysics_not_Anomalous: "computeTrialPhysics input \<noteq> Anomalous a"
proof (cases "getScenarioConfig input")
  case (Inl e)
  then show ?thesis by (simp add: computeTrialPhysics_def)
next
  case (Inr c)
  from getScenarioConfig_Inr[OF Inr] have c: "0 < startThresholdN c" "0 < systemMassKg c" by simp_all
  show ?thesis
  proof (cases "hangingMassKg input * G \<le> startThresholdN c")
    case True
    with Inr show ?thesis by (simp add: computeTrialPhysics_def Let_def)
  next
    case False
    with c(1) have "0 < hangingMassKg input * G" by simp
    then have "0 < hangingMassKg input" by (simp add: G_def zero_less_mult_iff)
    with c(2) have "systemMassKg c + hangingMassKg input \<noteq> 0" by simp
    with Inr False show ?thesis
      by (simp add: computeTrialPhysics_def Let_def divide_js_def)
  qed
qed

lemma computeTrialPhysics_Returned:
  assumes "computeTrialPhysics input = Returned p"
  shows "pullingForceN p = hangingMassKg input * G"
    and "travelTimeS p \<noteq> None \<longleftrightarrow> moved p"
    and "travelTimeS p = Some tt \<Longrightarrow> 0 < tt"
    and "moved p \<longleftrightarrow>
           pullingForceN p > startThresholdN (config p) \<and>
           (pullingForceN p - dragN (config p)) / (systemMassKg (config p) + hangingMassKg input) > 0"
    and "\<not> moved p \<Longrightarrow> accelerationMps2 p = 0 \<and> tensionN p = pullingForceN p"
proof -
  from assms obtain c where cfg: "getScenarioConfig input = Inr c"
    by (cases "getScenarioConfig input") (simp_all add: computeTrialPhysics_def)
  from getScenarioConfig_Inr[OF cfg] have c: "0 < startThresholdN c" "0 < systemMassKg c" by simp_all
  let ?pf = "hangingMassKg input * G"
  let ?acc = "(?pf - dragN c) / (systemMassKg c + hangingMassKg input)"
  consider (low) "?pf \<le> startThresholdN c"
    | (stuck) "\<not> ?pf \<le> startThresholdN c" "?acc \<le> 0"
    | (go) "\<not> ?pf \<le> startThresholdN c" "\<not> ?acc \<le> 0"
    by blast
  then have "pullingForceN p = hangingMassKg input * G \<and>
    (travelTimeS p \<noteq> None \<longleftrightarrow> moved p) \<and>
    (travelTimeS p = Some tt \<longrightarrow> 0 < tt) \<and>
    (moved p \<longleftrightarrow>
           pullingForceN p > startThresholdN (config p) \<and>
           (pullingForceN p - dragN (config p)) / (systemMassKg (config p) + hangingMassKg input) > 0) \<and>
    (\<not> moved p \<longrightarrow> accelerationMps2 p = 0 \<and> tensionN p = pullingForceN p)"
  proof cases
    case low
    with assms cfg have "p = \<lparr>config = c, physics_hangingMassKg = hangingMassKg input,
        pullingForceN = ?pf, netForceN = 0, accelerationMps2 = 0, tensionN = ?pf,
        moved = False, travelTimeS = None\<rparr>"
      by (simp add: computeTrialPhysics_def Let_def)
    with low show ?thesis by simp
  next
    case stuck
    with c(1) have "0 < hangingMassKg input * G" by simp
    then have "0 < hangingMassKg input" by (simp add: G_def zero_less_mult_iff)
    with c(2) have nz: "systemMassKg c + hangingMassKg input \<noteq> 0" by simp
    with stuck assms cfg have "p = \<lparr>config = c, physics_hangingMassKg = hangingMassKg input,
        pullingForceN = ?pf, netForceN = ?pf - dragN c, accelerationMps2 = 0, tensionN = ?pf,
        moved = False, travelTimeS = None\<rparr>"
      by (simp add: computeTrialPhysics_def Let_def divide_js_def)
    with stuck show ?thesis by simp
  next
    case go
    with c(1) have "0 < hangingMassKg input * G" by simp
    then have "0 < hangingMassKg input" by (simp add: G_def zero_less_mult_iff)
    with c(2) have nz: "systemMassKg c + hangingMassKg input \<noteq> 0" by simp
    from go(2) have accpos: "0 < ?acc" by simp
    then have accnz: "?acc \<noteq> 0" by (rule less_imp_neq[THEN not_sym])
    from go assms cfg nz accnz have "p = \<lparr>config = c, physics_hangingMassKg = hangingMassKg input,
        pullingForceN = ?pf, netForceN = ?pf - dragN c, accelerationMps2 = ?acc,
        tensionN = systemMassKg c * ?acc + dragN c,
        moved = True, travelTimeS = Some (sqrt (2 * TRACK_LENGTH_M / ?acc))\<rparr>"
      by (simp add: computeTrialPhysics_def Let_def divide_js_def)
    moreover have "0 < sqrt (2 * TRACK_LENGTH_M / ?acc)"
    proof -
      have "0 < 2 * TRACK_LENGTH_M" by (simp add: TRACK_LENGTH_M_def)
      then have "0 < 2 * TRACK_LENGTH_M / ?acc" using accpos by (rule divide_pos_pos)
      then show ?thesis by (rule real_sqrt_gt_zero)
    qed
    ultimately show ?thesis using go accpos by auto
  qed
  then show "pullingForceN p = hangingMassKg input * G"
    and "travelTimeS p \<noteq> None \<longleftrightarrow> moved p"
    and "travelTimeS p = Some tt \<Longrightarrow> 0 < tt"
    and "moved p \<longleftrightarrow>
           pullingForceN p > startThresholdN (config p) \<and>
           (pullingForceN p - dragN (config p)) / (systemMassKg (config p) + hangingMassKg input) > 0"
    and "\<not> moved p \<Longrightarrow> accelerationMps2 p = 0 \<and> tensionN p = pullingForceN p"
    by blast+
qed

text \<open>
  C10. \<open>computeTrialPhysics\<close> throws for an unknown preset only and meets no division
  by zero. In the result, the travel time is not \<open>null\<close> exactly when the trial moved, and
  it is positive then; the trial moved exactly when the pulling force exceeds the start
  threshold and the acceleration computed from it is positive; a trial that did not move
  has acceleration 0 and a tension equal to the pulling force. So, for a result of
  \<open>computeTrialPhysics\<close> that moved, \<open>generateTrialSignals\<close> takes the acceleration
  duration from the travel time and never from the fallback 1.8.
\<close>

theorem computeTrialPhysics_moved_iff:
  "(case computeTrialPhysics input of
      Threw e \<Rightarrow> presetId input \<notin> {''low'', ''medium'', ''high''}
    | Anomalous a \<Rightarrow> False
    | Returned p \<Rightarrow>
        pullingForceN p = hangingMassKg input * G \<and>
        (travelTimeS p \<noteq> None \<longleftrightarrow> moved p) \<and>
        (\<forall>tt. travelTimeS p = Some tt \<longrightarrow> 0 < tt) \<and>
        (moved p \<longleftrightarrow>
           pullingForceN p > startThresholdN (config p) \<and>
           (pullingForceN p - dragN (config p)) / (systemMassKg (config p) + hangingMassKg input) > 0) \<and>
        (\<not> moved p \<longrightarrow> accelerationMps2 p = 0 \<and> tensionN p = pullingForceN p) \<and>
        (moved p \<longrightarrow>
           (\<exists>tt. travelTimeS p = Some tt \<and> accelDurationS_of p = clamp (tt * 0.8) 1.1 2.0)))"
proof (cases "computeTrialPhysics input")
  case (Threw e)
  with computeTrialPhysics_Threw[OF Threw] show ?thesis by simp
next
  case (Anomalous a)
  with computeTrialPhysics_not_Anomalous[of input a] show ?thesis by simp
next
  case (Returned p)
  note r = computeTrialPhysics_Returned[OF Returned]
  have "moved p \<longrightarrow>
          (\<exists>tt. travelTimeS p = Some tt \<and> accelDurationS_of p = clamp (tt * 0.8) 1.1 2.0)"
    using r(2) by (auto simp: accelDurationS_of_def)
  with r Returned show ?thesis by simp
qed

lemma computeTrialPhysics_example_still:
  "computeTrialPhysics \<lparr>scenario = cart_plus_pad, presetId = ''high'', hangingMassKg = 0.1\<rparr> =
     Returned example_still"
  by (simp add: computeTrialPhysics_def getScenarioConfig_def getPresetById_cases PRESETS_def
      scenarioTitle_def G_def Let_def)

lemma computeTrialPhysics_example_moved:
  "computeTrialPhysics \<lparr>scenario = cart_only, presetId = ''low'', hangingMassKg = 0.4\<rparr> =
     Returned example_moved"
  by (simp add: computeTrialPhysics_def getScenarioConfig_def getPresetById_cases PRESETS_def
      scenarioTitle_def G_def TRACK_LENGTH_M_def divide_js_def Let_def)

theorem computeTrialPhysics_moved_iff_witness:
  "(\<exists>p. computeTrialPhysics \<lparr>scenario = cart_plus_pad, presetId = ''high'', hangingMassKg = 0.1\<rparr>
          = Returned p \<and>
        \<not> moved p \<and> travelTimeS p = None \<and> accelerationMps2 p = 0 \<and>
        tensionN p = pullingForceN p \<and> pullingForceN p = 0.1 * G) \<and>
   (\<exists>p tt. computeTrialPhysics \<lparr>scenario = cart_only, presetId = ''low'', hangingMassKg = 0.4\<rparr>
          = Returned p \<and>
        moved p \<and> travelTimeS p = Some tt \<and> 0 < tt \<and>
        accelDurationS_of p = clamp (tt * 0.8) 1.1 2.0)"
proof -
  have "\<not> moved example_still \<and> travelTimeS example_still = None \<and>
        accelerationMps2 example_still = 0 \<and>
        tensionN example_still = pullingForceN example_still \<and>
        pullingForceN example_still = 0.1 * G"
    using computeTrialPhysics_moved_iff
      [of "\<lparr>scenario = cart_plus_pad, presetId = ''high'', hangingMassKg = 0.1\<rparr>",
       unfolded computeTrialPhysics_example_still outcome.case]
    by simp
  moreover have "\<exists>tt. moved example_moved \<and> travelTimeS example_moved = Some tt \<and> 0 < tt \<and>
        accelDurationS_of example_moved = clamp (tt * 0.8) 1.1 2.0"
    using computeTrialPhysics_moved_iff
      [of "\<lparr>scenario = cart_only, presetId = ''low'', hangingMassKg = 0.4\<rparr>",
       unfolded computeTrialPhysics_example_moved outcome.case]
    by simp
  ultimately show ?thesis
    using computeTrialPhysics_example_still computeTrialPhysics_example_moved by blast
qed

section \<open>Properties of the selections and of the measurements\<close>

text \<open>
  C8. Normalising is idempotent and leaves an ordered interval as it is; it orders the
  interval from 5 to 1; it gives the same result for an interval and for the interval
  with its bounds exchanged; its result is ordered; and \<open>null\<close> stays \<open>null\<close>. The same
  holds for \<open>normalize\<close> of app.js.
\<close>

theorem normalizeSelection_idempotent:
  "normalizeSelection (normalizeSelection s) = normalizeSelection s \<and>
   (startS i \<le> endS i \<longrightarrow> normalizeSelection (Some i) = Some i) \<and>
   normalizeSelection (Some \<lparr>startS = 5, endS = 1\<rparr>) = Some \<lparr>startS = 1, endS = 5\<rparr> \<and>
   normalizeSelection (Some \<lparr>startS = a, endS = b\<rparr>)
     = normalizeSelection (Some \<lparr>startS = b, endS = a\<rparr>) \<and>
   (\<forall>out. normalizeSelection s = Some out \<longrightarrow> startS out \<le> endS out) \<and>
   normalizeSelection None = None \<and>
   normalize_app (normalize_app i) = normalize_app i \<and>
   (startS i \<le> endS i \<longrightarrow> normalize_app i = i) \<and>
   normalize_app \<lparr>startS = 5, endS = 1\<rparr> = \<lparr>startS = 1, endS = 5\<rparr> \<and>
   normalize_app \<lparr>startS = a, endS = b\<rparr> = normalize_app \<lparr>startS = b, endS = a\<rparr> \<and>
   startS (normalize_app i) \<le> endS (normalize_app i)"
  by (cases s) (auto simp: normalizeSelection_def normalize_app_def min_def max_def)

theorem normalizeSelection_idempotent_witness:
  "startS \<lparr>startS = 1, endS = 5\<rparr> \<le> endS \<lparr>startS = 1, endS = 5\<rparr> \<and>
   normalizeSelection (Some \<lparr>startS = 1, endS = 5\<rparr>) = Some \<lparr>startS = 1, endS = 5\<rparr> \<and>
   normalizeSelection (normalizeSelection (Some \<lparr>startS = 5, endS = 1\<rparr>))
     = Some \<lparr>startS = 1, endS = 5\<rparr> \<and>
   normalize_app \<lparr>startS = 1, endS = 5\<rparr> = \<lparr>startS = 1, endS = 5\<rparr>"
  using normalizeSelection_idempotent
    [of "Some \<lparr>startS = 5, endS = 1\<rparr>" "\<lparr>startS = 1, endS = 5\<rparr>" 5 1]
  by simp

lemma normalize_app_bounds:
  "min (startS (normalize_app w)) (endS (normalize_app w)) = min (startS w) (endS w) \<and>
   max (startS (normalize_app w)) (endS (normalize_app w)) = max (startS w) (endS w)"
  by (simp add: normalize_app_def min_def max_def)

lemma measureForceMean_Some:
  assumes "measureForceMean rnd ts fs window = Inr (Some m)"
  shows "\<exists>w. window = Some w \<and> 0.12 \<le> \<bar>endS w - startS w\<bar> \<and>
             6 \<le> length (filter (\<lambda>t. min (startS w) (endS w) \<le> t \<and> t \<le> max (startS w) (endS w)) ts)"
proof -
  from assms obtain w where w: "window = Some w" and valid: "isValidSelection (Some w)"
    by (cases window) (auto simp: measureForceMean_def split: if_splits)
  from assms w valid obtain sel where
    sel: "sliceWindow ts fs (startS (normalize_app w)) (endS (normalize_app w)) = Inr sel"
    and n: "MIN_POINTS \<le> length (values_w sel)"
    by (auto simp: measureForceMean_def Let_def split: sum.splits if_splits)
  from sliceWindow_Inr[OF sel] n
  have "6 \<le> length (filter (\<lambda>t. min (startS w) (endS w) \<le> t \<and> t \<le> max (startS w) (endS w)) ts)"
    by (simp add: normalize_app_bounds MIN_POINTS_def)
  with w valid show ?thesis
    by (simp add: isValidSelection_def MIN_SELECTION_WIDTH_S_def)
qed

lemma measureAcceleration_Some:
  assumes "measureAcceleration rnd ts vs window = Inr (Some m)"
  shows "\<exists>w. window = Some w \<and> 0.12 \<le> \<bar>endS w - startS w\<bar> \<and>
             6 \<le> length (filter (\<lambda>t. min (startS w) (endS w) \<le> t \<and> t \<le> max (startS w) (endS w)) ts)"
proof -
  from assms obtain w where w: "window = Some w" and valid: "isValidSelection (Some w)"
    by (cases window) (auto simp: measureAcceleration_def split: if_splits)
  from assms w valid obtain fit where
    fit: "linearRegressionInWindow rnd ts vs (startS (normalize_app w)) (endS (normalize_app w)) = Inr (Some fit)"
    and n: "MIN_POINTS \<le> count fit"
    by (auto simp: measureAcceleration_def Let_def split: sum.splits option.splits if_splits)
  from fit obtain sel where
    sel: "sliceWindow ts vs (startS (normalize_app w)) (endS (normalize_app w)) = Inr sel"
    and reg: "linearRegression rnd (times_w sel) (values_w sel) = Inr (Some fit)"
    by (auto simp: linearRegressionInWindow_def split: sum.splits)
  from linearRegression_count[OF reg] sliceWindow_Inr(1)[OF sel] n
  have "6 \<le> length (filter (\<lambda>t. min (startS w) (endS w) \<le> t \<and> t \<le> max (startS w) (endS w)) ts)"
    by (simp add: normalize_app_bounds MIN_POINTS_def)
  with w valid show ?thesis
    by (simp add: isValidSelection_def MIN_SELECTION_WIDTH_S_def)
qed

lemma measureForceMean_total:
  assumes "length ts \<le> length fs"
  shows "\<exists>r. measureForceMean rnd ts fs window = Inr r"
proof (cases "isValidSelection window")
  case False
  then show ?thesis by (simp add: measureForceMean_def)
next
  case True
  then obtain w where w: "window = Some w" by (cases window) (simp_all add: isValidSelection_def)
  obtain sel where sel: "sliceWindow ts fs (startS (normalize_app w)) (endS (normalize_app w)) = Inr sel"
    using sliceWindow_parallel[OF assms] by blast
  show ?thesis
  proof (cases "MIN_POINTS \<le> length (values_w sel)")
    case False
    with True w sel show ?thesis by (simp add: measureForceMean_def Let_def)
  next
    case big: True
    then have "values_w sel \<noteq> []" by (auto simp: MIN_POINTS_def)
    then obtain m where "mean rnd (values_w sel) = Inr m" using mean_total by blast
    with True w sel big show ?thesis
      by (simp add: measureForceMean_def Let_def)
  qed
qed

lemma measureAcceleration_total:
  assumes "length ts \<le> length vs"
  shows "\<exists>r. measureAcceleration rnd ts vs window = Inr r"
proof (cases "isValidSelection window")
  case False
  then show ?thesis by (simp add: measureAcceleration_def)
next
  case True
  then obtain w where w: "window = Some w" by (cases window) (simp_all add: isValidSelection_def)
  obtain sel where sel: "sliceWindow ts vs (startS (normalize_app w)) (endS (normalize_app w)) = Inr sel"
    using sliceWindow_parallel[OF assms] by blast
  obtain r where r: "linearRegression rnd (times_w sel) (values_w sel) = Inr r"
    using linearRegression_no_anomaly[of rnd "times_w sel" "values_w sel"]
    by (cases "linearRegression rnd (times_w sel) (values_w sel)") auto
  with True w sel show ?thesis
    by (cases r) (simp_all add: measureAcceleration_def Let_def linearRegressionInWindow_def)
qed

lemma updateMeasurementValues_Inl:
  assumes "updateMeasurementValues rnd state = Inl e"
  shows "\<exists>trial. currentTrial state = Some trial \<and>
           \<not> (length (timesS (signals trial)) \<le> length (forceN (signals trial)) \<and>
              length (timesS (signals trial)) \<le> length (velocityMps (signals trial)))"
proof (cases "currentTrial state")
  case None
  with assms show ?thesis by (simp add: updateMeasurementValues_def)
next
  case (Some trial)
  show ?thesis
  proof (rule ccontr)
    assume "\<not> ?thesis"
    with Some have par: "length (timesS (signals trial)) \<le> length (forceN (signals trial))"
      "length (timesS (signals trial)) \<le> length (velocityMps (signals trial))" by simp_all
    from measureForceMean_total[OF par(1)] measureAcceleration_total[OF par(2)]
    obtain a b where "measureForceMean rnd (timesS (signals trial)) (forceN (signals trial))
                        (forceWindow (measurement state)) = Inr a"
      "measureAcceleration rnd (timesS (signals trial)) (velocityMps (signals trial))
                        (velocityWindow (measurement state)) = Inr b" by blast
    with Some assms show False by (simp add: updateMeasurementValues_def)
  qed
qed

lemma updateMeasurementValues_Inr:
  assumes "updateMeasurementValues rnd state = Inr state'"
  shows "(forceMeanN (measurement state') = Some m \<longrightarrow>
           (\<exists>trial w. currentTrial state = Some trial \<and> forceWindow (measurement state) = Some w \<and>
              0.12 \<le> \<bar>endS w - startS w\<bar> \<and>
              6 \<le> length (filter (\<lambda>t. min (startS w) (endS w) \<le> t \<and> t \<le> max (startS w) (endS w))
                     (timesS (signals trial)))))"
    and "(measured_accelerationMps2 (measurement state') = Some a \<longrightarrow>
           (\<exists>trial w. currentTrial state = Some trial \<and> velocityWindow (measurement state) = Some w \<and>
              0.12 \<le> \<bar>endS w - startS w\<bar> \<and>
              6 \<le> length (filter (\<lambda>t. min (startS w) (endS w) \<le> t \<and> t \<le> max (startS w) (endS w))
                     (timesS (signals trial)))))"
proof -
  show "(forceMeanN (measurement state') = Some m \<longrightarrow>
           (\<exists>trial w. currentTrial state = Some trial \<and> forceWindow (measurement state) = Some w \<and>
              0.12 \<le> \<bar>endS w - startS w\<bar> \<and>
              6 \<le> length (filter (\<lambda>t. min (startS w) (endS w) \<le> t \<and> t \<le> max (startS w) (endS w))
                     (timesS (signals trial)))))"
  proof (cases "currentTrial state")
    case None
    with assms show ?thesis by (auto simp: updateMeasurementValues_def)
  next
    case (Some trial)
    with assms obtain fm acc where
      fm: "measureForceMean rnd (timesS (signals trial)) (forceN (signals trial))
             (forceWindow (measurement state)) = Inr fm"
      and st: "state' = state\<lparr>measurement := (measurement state)\<lparr>forceMeanN := fm,
                 measured_accelerationMps2 := acc\<rparr>\<rparr>"
      by (auto simp: updateMeasurementValues_def split: sum.splits)
    show ?thesis
    proof
      assume "forceMeanN (measurement state') = Some m"
      with st fm have "measureForceMean rnd (timesS (signals trial)) (forceN (signals trial))
             (forceWindow (measurement state)) = Inr (Some m)" by simp
      from measureForceMean_Some[OF this] Some show "\<exists>trial w. currentTrial state = Some trial \<and> forceWindow (measurement state) = Some w \<and>
              0.12 \<le> \<bar>endS w - startS w\<bar> \<and>
              6 \<le> length (filter (\<lambda>t. min (startS w) (endS w) \<le> t \<and> t \<le> max (startS w) (endS w))
                     (timesS (signals trial)))" by blast
    qed
  qed
  show "(measured_accelerationMps2 (measurement state') = Some a \<longrightarrow>
           (\<exists>trial w. currentTrial state = Some trial \<and> velocityWindow (measurement state) = Some w \<and>
              0.12 \<le> \<bar>endS w - startS w\<bar> \<and>
              6 \<le> length (filter (\<lambda>t. min (startS w) (endS w) \<le> t \<and> t \<le> max (startS w) (endS w))
                     (timesS (signals trial)))))"
  proof (cases "currentTrial state")
    case None
    with assms show ?thesis by (auto simp: updateMeasurementValues_def)
  next
    case (Some trial)
    with assms obtain fm acc where
      ac: "measureAcceleration rnd (timesS (signals trial)) (velocityMps (signals trial))
             (velocityWindow (measurement state)) = Inr acc"
      and st: "state' = state\<lparr>measurement := (measurement state)\<lparr>forceMeanN := fm,
                 measured_accelerationMps2 := acc\<rparr>\<rparr>"
      by (auto simp: updateMeasurementValues_def split: sum.splits)
    show ?thesis
    proof
      assume "measured_accelerationMps2 (measurement state') = Some a"
      with st ac have "measureAcceleration rnd (timesS (signals trial)) (velocityMps (signals trial))
             (velocityWindow (measurement state)) = Inr (Some a)" by simp
      from measureAcceleration_Some[OF this] Some show "\<exists>trial w. currentTrial state = Some trial \<and> velocityWindow (measurement state) = Some w \<and>
              0.12 \<le> \<bar>endS w - startS w\<bar> \<and>
              6 \<le> length (filter (\<lambda>t. min (startS w) (endS w) \<le> t \<and> t \<le> max (startS w) (endS w))
                     (timesS (signals trial)))" by blast
    qed
  qed
qed

lemma updateMeasurementValues_generated:
  assumes "currentTrial state = Some trial" "signals trial = generateTrialSignals p opts"
  shows "\<exists>state'. updateMeasurementValues rnd state = Inr state'"
proof (cases "updateMeasurementValues rnd state")
  case (Inl e)
  from updateMeasurementValues_Inl[OF Inl] assms(1)
  have "\<not> (length (timesS (signals trial)) \<le> length (forceN (signals trial)) \<and>
           length (timesS (signals trial)) \<le> length (velocityMps (signals trial)))"
    by simp
  moreover have "length (timesS (signals trial)) = length (forceN (signals trial))"
    "length (timesS (signals trial)) = length (velocityMps (signals trial))"
    by (simp_all add: assms(2) generate_shape)
  ultimately show ?thesis by simp
next
  case (Inr state')
  then show ?thesis by blast
qed

text \<open>
  C3. Whatever the rounding, \<open>updateMeasurementValues\<close> ends in an anomaly only for a
  trial whose force or velocity array is shorter than its array of times, and never for
  a trial whose signals \<open>generateTrialSignals\<close> made. Otherwise, in the state it returns,
  a force mean that is not \<open>null\<close> comes from a force window at least 0.12 s wide whose
  slice of the trial's samples holds at least 6 points, and an acceleration that is not
  \<open>null\<close> comes from a velocity window with the same two properties: a window narrower
  than 0.12 s, or with fewer than 6 samples, gives \<open>null\<close>, and so does a state without
  a current trial or without a window.
\<close>

theorem updateMeasurementValues_gated:
  "(case updateMeasurementValues rnd state of
      Inl e \<Rightarrow>
        (\<exists>trial. currentTrial state = Some trial \<and>
           \<not> (length (timesS (signals trial)) \<le> length (forceN (signals trial)) \<and>
              length (timesS (signals trial)) \<le> length (velocityMps (signals trial))))
    | Inr state' \<Rightarrow>
        (\<forall>m. forceMeanN (measurement state') = Some m \<longrightarrow>
           (\<exists>trial w. currentTrial state = Some trial \<and>
              forceWindow (measurement state) = Some w \<and>
              0.12 \<le> \<bar>endS w - startS w\<bar> \<and>
              6 \<le> length (filter (\<lambda>t. min (startS w) (endS w) \<le> t \<and> t \<le> max (startS w) (endS w))
                     (timesS (signals trial))))) \<and>
        (\<forall>a. measured_accelerationMps2 (measurement state') = Some a \<longrightarrow>
           (\<exists>trial w. currentTrial state = Some trial \<and>
              velocityWindow (measurement state) = Some w \<and>
              0.12 \<le> \<bar>endS w - startS w\<bar> \<and>
              6 \<le> length (filter (\<lambda>t. min (startS w) (endS w) \<le> t \<and> t \<le> max (startS w) (endS w))
                     (timesS (signals trial)))))) \<and>
   (\<forall>trial p opts.
      currentTrial state = Some trial \<and> signals trial = generateTrialSignals p opts \<longrightarrow>
      (\<exists>state'. updateMeasurementValues rnd state = Inr state'))"
proof -
  have "case updateMeasurementValues rnd state of
      Inl e \<Rightarrow>
        (\<exists>trial. currentTrial state = Some trial \<and>
           \<not> (length (timesS (signals trial)) \<le> length (forceN (signals trial)) \<and>
              length (timesS (signals trial)) \<le> length (velocityMps (signals trial))))
    | Inr state' \<Rightarrow>
        (\<forall>m. forceMeanN (measurement state') = Some m \<longrightarrow>
           (\<exists>trial w. currentTrial state = Some trial \<and>
              forceWindow (measurement state) = Some w \<and>
              0.12 \<le> \<bar>endS w - startS w\<bar> \<and>
              6 \<le> length (filter (\<lambda>t. min (startS w) (endS w) \<le> t \<and> t \<le> max (startS w) (endS w))
                     (timesS (signals trial))))) \<and>
        (\<forall>a. measured_accelerationMps2 (measurement state') = Some a \<longrightarrow>
           (\<exists>trial w. currentTrial state = Some trial \<and>
              velocityWindow (measurement state) = Some w \<and>
              0.12 \<le> \<bar>endS w - startS w\<bar> \<and>
              6 \<le> length (filter (\<lambda>t. min (startS w) (endS w) \<le> t \<and> t \<le> max (startS w) (endS w))
                     (timesS (signals trial)))))"
  proof (cases "updateMeasurementValues rnd state")
    case (Inl e)
    with updateMeasurementValues_Inl[OF Inl] show ?thesis by simp
  next
    case (Inr state')
    from updateMeasurementValues_Inr[OF Inr] Inr show ?thesis by simp
  qed
  with updateMeasurementValues_generated[of state _ _ _ rnd] show ?thesis by blast
qed

lemma sums_example_state:
  "sums_loop exact [0, 1, 2, 3, 4, 5] [0, 2, 4, 6, 8, 10] (5 / 2) 5 = (35 / 2, 35, 70)"
  by (simp add: sums_loop_def sums_step_def Let_def upt_rec)

lemma regression_example_state:
  "linearRegression exact [0, 1, 2, 3, 4, 5] [0, 2, 4, 6, 8, 10] =
     Inr (Some \<lparr>slope = 2, intercept = 0, r2 = 1, count = 6\<rparr>)"
  by (simp add: linearRegression_def mean_def divide_js_def sums_example_state
      residual_loop_def residual_step_def upt_rec)

lemma update_example_state:
  "updateMeasurementValues exact example_state =
     Inr (example_state\<lparr>measurement :=
            (measurement example_state)\<lparr>forceMeanN := None,
               measured_accelerationMps2 := Some 2\<rparr>\<rparr>)"
  by (simp add: updateMeasurementValues_def measureForceMean_def measureAcceleration_def
      isValidSelection_def MIN_SELECTION_WIDTH_S_def MIN_POINTS_def normalize_app_def
      linearRegressionInWindow_def sliceWindow_parallel regression_example_state)

theorem updateMeasurementValues_gated_witness:
  "\<exists>s'. updateMeasurementValues exact example_state = Inr s' \<and>
        forceMeanN (measurement s') = None \<and>
        measured_accelerationMps2 (measurement s') = Some 2 \<and>
        (\<exists>trial w. currentTrial example_state = Some trial \<and>
           velocityWindow (measurement example_state) = Some w \<and>
           0.12 \<le> \<bar>endS w - startS w\<bar> \<and>
           6 \<le> length (filter (\<lambda>t. min (startS w) (endS w) \<le> t \<and> t \<le> max (startS w) (endS w))
                  (timesS (signals trial))))"
proof -
  let ?s' = "example_state\<lparr>measurement :=
            (measurement example_state)\<lparr>forceMeanN := None,
               measured_accelerationMps2 := Some 2\<rparr>\<rparr>"
  have m: "measured_accelerationMps2 (measurement ?s') = Some 2"
    and f: "forceMeanN (measurement ?s') = None" by simp_all
  from updateMeasurementValues_gated[where rnd = exact and state = example_state,
      THEN conjunct1] update_example_state
  have "\<forall>a. measured_accelerationMps2 (measurement ?s') = Some a \<longrightarrow>
           (\<exists>trial w. currentTrial example_state = Some trial \<and>
              velocityWindow (measurement example_state) = Some w \<and>
              0.12 \<le> \<bar>endS w - startS w\<bar> \<and>
              6 \<le> length (filter (\<lambda>t. min (startS w) (endS w) \<le> t \<and> t \<le> max (startS w) (endS w))
                     (timesS (signals trial))))"
    by (simp only: sum.case) blast
  with m have "\<exists>trial w. currentTrial example_state = Some trial \<and>
           velocityWindow (measurement example_state) = Some w \<and>
           0.12 \<le> \<bar>endS w - startS w\<bar> \<and>
           6 \<le> length (filter (\<lambda>t. min (startS w) (endS w) \<le> t \<and> t \<le> max (startS w) (endS w))
                  (timesS (signals trial)))" by blast
  with update_example_state m f show ?thesis by blast
qed

end
